theory Spec2Isabelle
  imports Main "HOL-Library.Word" "HOL-Library.Signed_Division"
begin

section \<open>Errors and C++ integer arithmetic\<close>

text \<open>
  Every way in which a run of the tools can stop is a value of \<open>error\<close>. The first four
  are the \<open>runtime_error\<close>s thrown by the sources (``Corrupt ILDA file.'', ``Unexpected end
  of input.'', ``Not supported.'', ``Invalid signal.''). \<open>UndefinedBehaviour\<close> stands for
  the points where the C++ standard gives the program no meaning: overflow of a signed
  \<open>int\<close> operation, division by zero, and a store outside \<open>frame_data\<close>.
  \<open>AllocationFailure\<close> is the exception of \<open>std::vector\<close> for a size that does not
  fit, and \<open>WriteFailure\<close> is \<open>ostream::write\<close> called with a negative count.
\<close>

datatype error =
    CorruptFormat
  | UnexpectedEof
  | UnsupportedFormat
  | InvalidSignal
  | UndefinedBehaviour
  | AllocationFailure
  | WriteFailure

definition bindE :: "error + 'a \<Rightarrow> ('a \<Rightarrow> error + 'b) \<Rightarrow> error + 'b" where
  "bindE m f = (case m of Inl e \<Rightarrow> Inl e | Inr v \<Rightarrow> f v)"

definition INT_MAX :: int where
  "INT_MAX = 2147483647"

definition INT_MIN :: int where
  "INT_MIN = - 2147483648"

text \<open>The value of an \<open>int\<close> expression: it exists only when it fits 32 bits.\<close>

definition chk :: "int \<Rightarrow> error + int" where
  "chk v = (if INT_MIN \<le> v \<and> v \<le> INT_MAX then Inr v else Inl UndefinedBehaviour)"

definition c_add :: "int \<Rightarrow> int \<Rightarrow> error + int" where
  "c_add a b = chk (a + b)"

definition c_mul :: "int \<Rightarrow> int \<Rightarrow> error + int" where
  "c_mul a b = chk (a * b)"

text \<open>\<open>/\<close> and \<open>%\<close> of C++ truncate towards zero: \<open>sdiv\<close> and \<open>smod\<close> on \<open>int\<close>.\<close>

definition c_div :: "int \<Rightarrow> int \<Rightarrow> error + int" where
  "c_div a b = (if b = 0 then Inl UndefinedBehaviour else chk (a sdiv b))"

definition c_mod :: "int \<Rightarrow> int \<Rightarrow> error + int" where
  "c_mod a b =
     (if b = 0 \<or> (a = INT_MIN \<and> b = - 1) then Inl UndefinedBehaviour else Inr (a smod b))"

text \<open>Conversion of a value to \<open>int\<close> (from \<open>size_t\<close>) and to \<open>int16_t\<close>: modulo
  \<open>2 ^ 32\<close> and \<open>2 ^ 16\<close>, read as two's complement.\<close>

definition to_int32 :: "int \<Rightarrow> int" where
  "to_int32 v = (v + 2147483648) mod 4294967296 - 2147483648"

definition to_int16 :: "int \<Rightarrow> int" where
  "to_int16 v = (v + 32768) mod 65536 - 32768"

section \<open>Fair remainder distribution (ilda\_wav.cpp)\<close>

text \<open>
  \<^verbatim>\<open>int base = total_size / groups;
  int rest = total_size % groups;
  bool extra_needed = index * rest % groups > (index + 1) * rest % groups;
  return extra_needed ? base + 1 : base;\<close>
\<close>

definition groupSizeOfNthGroup :: "int \<Rightarrow> int \<Rightarrow> int \<Rightarrow> error + int" where
  "groupSizeOfNthGroup total_size groups index =
     bindE (c_div total_size groups) (\<lambda>base.
     bindE (c_mod total_size groups) (\<lambda>rest.
     bindE (c_mul index rest) (\<lambda>a.
     bindE (c_mod a groups) (\<lambda>lhs.
     bindE (c_add index 1) (\<lambda>index1.
     bindE (c_mul index1 rest) (\<lambda>b.
     bindE (c_mod b groups) (\<lambda>rhs.
     if lhs > rhs then c_add base 1 else Inr base)))))))"


section \<open>Data model (frame.hpp, ilda.hpp)\<close>

text \<open>
  The structs of the sources. Field names carry a prefix (\<open>pt_\<close>, \<open>col_\<close>), since a
  field is a constant of the theory. Coordinates are \<open>int16_t\<close>, held as integers in
  \<open>-32768..32767\<close>; the colour fields of \<open>Point\<close> are \<open>uint16_t\<close>.
\<close>

type_synonym byte = "8 word"

record Point =
  pt_x :: int
  pt_y :: int
  pt_z :: int
  pt_r :: nat
  pt_g :: nat
  pt_b :: nat

record Frame =
  projector :: byte
  points :: "Point list"

datatype ILDAColor = ILDAColor (col_r: byte) (col_g: byte) (col_b: byte)

text \<open>
  The packed structs of ilda.hpp are filled by \<open>input.read((char *)&target, sizeof(target))\<close>:
  a struct is its bytes, and a field is read at its offset. The host is little-endian
  (the byte order in which \<open>int16_t\<close> and \<open>uint16_t\<close> fields are stored).
\<close>

definition native_uint16 :: "byte \<Rightarrow> byte \<Rightarrow> nat" where
  "native_uint16 b0 b1 = unat b0 + 256 * unat b1"

definition native_int16 :: "byte \<Rightarrow> byte \<Rightarrow> int" where
  "native_int16 b0 b1 = to_int16 (int (native_uint16 b0 b1))"

text \<open>\<open>boost::endian::big_to_native\<close> on a little-endian host swaps the two bytes.\<close>

definition big_to_native :: "nat \<Rightarrow> nat" where
  "big_to_native v = (v mod 256) * 256 + v div 256"

text \<open>\<open>ilda_header\<close>: 32 bytes. \<open>ilda\<close> at 0..3, \<open>reserved_a\<close> at 4..6, \<open>format\<close> at 7,
  \<open>name\<close> at 8..15, \<open>company\<close> at 16..23, \<open>number_of_records\<close> at 24..25,
  \<open>frame_number\<close> at 26..27, \<open>total_frames\<close> at 28..29, \<open>projector_id\<close> at 30,
  \<open>reserved_b\<close> at 31.\<close>

type_synonym ilda_header = "byte list"

definition sizeof_ilda_header :: nat where
  "sizeof_ilda_header = 32"

definition hdr_ilda :: "ilda_header \<Rightarrow> byte list" where
  "hdr_ilda h = take 4 h"

definition hdr_format :: "ilda_header \<Rightarrow> byte" where
  "hdr_format h = h ! 7"

definition hdr_number_of_records :: "ilda_header \<Rightarrow> nat" where
  "hdr_number_of_records h = native_uint16 (h ! 24) (h ! 25)"

definition hdr_projector_id :: "ilda_header \<Rightarrow> byte" where
  "hdr_projector_id h = h ! 30"

text \<open>\<open>ilda_status\<close>: six unnamed bits, then \<open>blanked\<close> (bit 6), then \<open>last_point\<close>.\<close>

definition status_blanked :: "byte \<Rightarrow> bool" where
  "status_blanked st \<longleftrightarrow> (unat st div 64) mod 2 = 1"

text \<open>\<open>std::string(const char *)\<close>: the characters up to the first NUL.\<close>

definition c_string :: "byte list \<Rightarrow> byte list" where
  "c_string bs = takeWhile (\<lambda>b. b \<noteq> 0) bs"

definition ILDA_literal :: "byte list" where
  "ILDA_literal = [73, 76, 68, 65]"

definition default_palette :: "ILDAColor list" where
  "default_palette =
    [ILDAColor 255 0 0, ILDAColor 255 16 0, ILDAColor 255 32 0, ILDAColor 255 48 0,
     ILDAColor 255 64 0, ILDAColor 255 80 0, ILDAColor 255 96 0, ILDAColor 255 112 0,
     ILDAColor 255 128 0, ILDAColor 255 144 0, ILDAColor 255 160 0, ILDAColor 255 176 0,
     ILDAColor 255 192 0, ILDAColor 255 208 0, ILDAColor 255 224 0, ILDAColor 255 240 0,
     ILDAColor 255 255 0, ILDAColor 224 255 0, ILDAColor 192 255 0, ILDAColor 160 255 0,
     ILDAColor 128 255 0, ILDAColor 96 255 0, ILDAColor 64 255 0, ILDAColor 32 255 0,
     ILDAColor 0 255 0, ILDAColor 0 255 36, ILDAColor 0 255 73, ILDAColor 0 255 109,
     ILDAColor 0 255 146, ILDAColor 0 255 182, ILDAColor 0 255 219, ILDAColor 0 255 255,
     ILDAColor 0 227 255, ILDAColor 0 198 255, ILDAColor 0 170 255, ILDAColor 0 142 255,
     ILDAColor 0 113 255, ILDAColor 0 85 255, ILDAColor 0 56 255, ILDAColor 0 28 255,
     ILDAColor 0 0 255, ILDAColor 32 0 255, ILDAColor 64 0 255, ILDAColor 96 0 255,
     ILDAColor 128 0 255, ILDAColor 160 0 255, ILDAColor 192 0 255, ILDAColor 224 0 255,
     ILDAColor 255 0 255, ILDAColor 255 32 255, ILDAColor 255 64 255, ILDAColor 255 96 255,
     ILDAColor 255 128 255, ILDAColor 255 160 255, ILDAColor 255 192 255, ILDAColor 255 224 255,
     ILDAColor 255 255 255, ILDAColor 255 224 224, ILDAColor 255 192 192, ILDAColor 255 160 160,
     ILDAColor 255 128 128, ILDAColor 255 96 96, ILDAColor 255 64 64, ILDAColor 255 32 32]"

section \<open>The frame decoder (ilda\_istream.cpp)\<close>

record ILDAIStream =
  input :: "byte list"
  header :: ilda_header
  current_frame :: Frame
  number_of_records :: nat
  palettes :: "byte \<rightharpoonup> ILDAColor list"

text \<open>\<open>read(T &target)\<close>: \<open>sizeof(target)\<close> bytes, or ``Unexpected end of input.''\<close>

definition read :: "nat \<Rightarrow> ILDAIStream \<Rightarrow> error + (byte list \<times> ILDAIStream)" where
  "read n s =
     (if length (input s) < n then Inl UnexpectedEof
      else Inr (take n (input s), s\<lparr>input := drop n (input s)\<rparr>))"

text \<open>
  \<open>string(header.ilda) != string("ILDA")\<close>: \<open>header.ilda\<close> is a \<open>char[4]\<close> without
  terminator, so the string runs on through the bytes that follow it in the packed
  header, up to the first NUL. (Without any NUL in the header it runs past the header;
  it is then longer than four characters, as it is here.)
\<close>

definition readHeader :: "ILDAIStream \<Rightarrow> error + ILDAIStream" where
  "readHeader s =
     bindE (read sizeof_ilda_header s) (\<lambda>(bs, s1).
       if c_string bs \<noteq> ILDA_literal then Inl CorruptFormat
       else Inr (s1\<lparr>header := bs,
                     number_of_records := big_to_native (hdr_number_of_records bs)\<rparr>))"

text \<open>A \<open>for\<close> loop over the elements of a list (the indices \<open>[0..<n]\<close>, or the
  characters of a string), stopped by the first error.\<close>

fun for_loop :: "'a list \<Rightarrow> ('a \<Rightarrow> 's \<Rightarrow> error + 's) \<Rightarrow> 's \<Rightarrow> error + 's" where
  "for_loop [] body s = Inr s"
| "for_loop (i # is) body s = bindE (body i s) (for_loop is body)"

definition push_back :: "Point \<Rightarrow> ILDAIStream \<Rightarrow> ILDAIStream" where
  "push_back p s = s\<lparr>current_frame := (current_frame s)\<lparr>points := points (current_frame s) @ [p]\<rparr>\<rparr>"

definition begin_frame :: "ILDAIStream \<Rightarrow> ILDAIStream" where
  "begin_frame s =
     s\<lparr>current_frame := \<lparr>projector = hdr_projector_id (header s), points = []\<rparr>\<rparr>"

definition lookup_palette :: "ILDAIStream \<Rightarrow> ILDAColor list" where
  "lookup_palette s =
     (case palettes s (hdr_projector_id (header s)) of
        None \<Rightarrow> default_palette
      | Some pal \<Rightarrow> pal)"

text \<open>A point with the colour of a palette entry, or black.\<close>

definition indexed_point :: "ILDAColor list \<Rightarrow> int \<Rightarrow> int \<Rightarrow> int \<Rightarrow> byte \<Rightarrow> byte \<Rightarrow> Point" where
  "indexed_point palette x y z status color =
     (if unat color \<ge> length palette \<or> status_blanked status
      then \<lparr>pt_x = x, pt_y = y, pt_z = z, pt_r = 0, pt_g = 0, pt_b = 0\<rparr>
      else \<lparr>pt_x = x, pt_y = y, pt_z = z,
             pt_r = unat (col_r (palette ! unat color)),
             pt_g = unat (col_g (palette ! unat color)),
             pt_b = unat (col_b (palette ! unat color))\<rparr>)"

definition true_point :: "int \<Rightarrow> int \<Rightarrow> int \<Rightarrow> byte \<Rightarrow> byte \<Rightarrow> byte \<Rightarrow> byte \<Rightarrow> Point" where
  "true_point x y z status cr cg cb =
     (if status_blanked status
      then \<lparr>pt_x = x, pt_y = y, pt_z = z, pt_r = 0, pt_g = 0, pt_b = 0\<rparr>
      else \<lparr>pt_x = x, pt_y = y, pt_z = z, pt_r = unat cr, pt_g = unat cg, pt_b = unat cb\<rparr>)"

text \<open>\<open>ILDA3dCoordinatesIndexed\<close>, 8 bytes: x 0..1, y 2..3, z 4..5, status 6, color 7.\<close>

definition point_3d_indexed :: "ILDAColor list \<Rightarrow> byte list \<Rightarrow> Point" where
  "point_3d_indexed palette c =
     indexed_point palette (native_int16 (c ! 0) (c ! 1)) (native_int16 (c ! 2) (c ! 3))
       (native_int16 (c ! 4) (c ! 5)) (c ! 6) (c ! 7)"

definition frameFrom3dCoordinatesIndexed :: "ILDAIStream \<Rightarrow> error + ILDAIStream" where
  "frameFrom3dCoordinatesIndexed s0 =
     (let s = begin_frame s0; palette = lookup_palette s in
      for_loop [0..<number_of_records s] (\<lambda>i s.
        bindE (read 8 s) (\<lambda>(c, s1). Inr (push_back (point_3d_indexed palette c) s1))) s)"

text \<open>\<open>ILDA2dCoordinatesIndexed\<close>, 6 bytes: x 0..1, y 2..3, status 4, color 5. No case of
  \<open>nextFrame\<close> calls this function.\<close>

definition point_2d_indexed :: "ILDAColor list \<Rightarrow> byte list \<Rightarrow> Point" where
  "point_2d_indexed palette c =
     indexed_point palette (native_int16 (c ! 0) (c ! 1)) (native_int16 (c ! 2) (c ! 3))
       0 (c ! 4) (c ! 5)"

definition frameFrom2dCoordinatesIndexed :: "ILDAIStream \<Rightarrow> error + ILDAIStream" where
  "frameFrom2dCoordinatesIndexed s0 =
     (let s = begin_frame s0; palette = lookup_palette s in
      for_loop [0..<number_of_records s] (\<lambda>i s.
        bindE (read 6 s) (\<lambda>(c, s1). Inr (push_back (point_2d_indexed palette c) s1))) s)"

text \<open>\<open>ILDAColor\<close>, 3 bytes: r, g, b. The palette of the header's projector is cleared,
  resized to \<open>number_of_records\<close> and filled entry by entry.\<close>

definition set_palette_entry :: "nat \<Rightarrow> ILDAColor \<Rightarrow> ILDAIStream \<Rightarrow> error + ILDAIStream" where
  "set_palette_entry i c s =
     (case palettes s (hdr_projector_id (header s)) of
        None \<Rightarrow> Inl UndefinedBehaviour
      | Some pal \<Rightarrow>
          if i < length pal
          then Inr (s\<lparr>palettes := (palettes s)(hdr_projector_id (header s) \<mapsto> pal[i := c])\<rparr>)
          else Inl UndefinedBehaviour)"

definition setColorPalette :: "ILDAIStream \<Rightarrow> error + ILDAIStream" where
  "setColorPalette s0 =
     (let s = s0\<lparr>palettes := (palettes s0)(hdr_projector_id (header s0) \<mapsto>
                   replicate (number_of_records s0) (ILDAColor 0 0 0))\<rparr> in
      for_loop [0..<number_of_records s] (\<lambda>i s.
        bindE (read 3 s) (\<lambda>(c, s1).
          set_palette_entry i (ILDAColor (c ! 0) (c ! 1) (c ! 2)) s1)) s)"

text \<open>\<open>ILDA3dCoordinatesTrue\<close>, 10 bytes: x, y, z, status 6, b 7, g 8, r 9.\<close>

definition point_3d_true :: "byte list \<Rightarrow> Point" where
  "point_3d_true c =
     true_point (native_int16 (c ! 0) (c ! 1)) (native_int16 (c ! 2) (c ! 3))
       (native_int16 (c ! 4) (c ! 5)) (c ! 6) (c ! 9) (c ! 8) (c ! 7)"

definition frameFrom3dCoordinatesTrue :: "ILDAIStream \<Rightarrow> error + ILDAIStream" where
  "frameFrom3dCoordinatesTrue s0 =
     for_loop [0..<number_of_records s0] (\<lambda>i s.
        bindE (read 10 s) (\<lambda>(c, s1). Inr (push_back (point_3d_true c) s1)))
       (begin_frame s0)"

text \<open>\<open>ILDA2dCoordinatesTrue\<close>, 8 bytes: x, y, status 4, b 5, g 6, r 7.\<close>

definition point_2d_true :: "byte list \<Rightarrow> Point" where
  "point_2d_true c =
     true_point (native_int16 (c ! 0) (c ! 1)) (native_int16 (c ! 2) (c ! 3))
       0 (c ! 4) (c ! 7) (c ! 6) (c ! 5)"

definition frameFrom2dCoordinatesTrue :: "ILDAIStream \<Rightarrow> error + ILDAIStream" where
  "frameFrom2dCoordinatesTrue s0 =
     for_loop [0..<number_of_records s0] (\<lambda>i s.
        bindE (read 8 s) (\<lambda>(c, s1). Inr (push_back (point_2d_true c) s1)))
       (begin_frame s0)"

text \<open>
  \<open>nextFrame\<close> returns \<open>nullptr\<close> (\<open>None\<close>) for a header with no records, and
  \<open>&current_frame\<close> after every dispatched block.
\<close>

definition nextFrame :: "ILDAIStream \<Rightarrow> error + (Frame option \<times> ILDAIStream)" where
  "nextFrame s =
     bindE (readHeader s) (\<lambda>s1.
       if number_of_records s1 = 0 then Inr (None, s1)
       else
         bindE
           (if hdr_format (header s1) = 0 then frameFrom3dCoordinatesIndexed s1
            else if hdr_format (header s1) = 1 then frameFrom3dCoordinatesIndexed s1
            else if hdr_format (header s1) = 2 then setColorPalette s1
            else if hdr_format (header s1) = 4 then frameFrom3dCoordinatesTrue s1
            else if hdr_format (header s1) = 5 then frameFrom2dCoordinatesTrue s1
            else Inl UnsupportedFormat)
           (\<lambda>s2. Inr (Some (current_frame s2), s2)))"


section \<open>The sample encoder (ilda\_wav.cpp)\<close>

subsection \<open>The container header\<close>

text \<open>\<open>WavHeader\<close>: the \<open>uint32_t\<close> and \<open>uint16_t\<close> fields are naturals, reduced modulo
  \<open>2 ^ 32\<close> and \<open>2 ^ 16\<close> when they are assigned; the four tags are constants of the
  layout.\<close>

record WavHeader =
  wav_chunk_size :: nat
  wav_fmt_chunk_size :: nat
  wav_audio_format :: nat
  wav_channels :: nat
  wav_rate :: nat
  wav_bytes_per_second :: nat
  wav_bytes_per_block :: nat
  wav_bits_per_sample :: nat
  wav_data_size :: nat

definition to_uint16 :: "int \<Rightarrow> nat" where
  "to_uint16 v = nat (v mod 65536)"

definition to_uint32 :: "int \<Rightarrow> nat" where
  "to_uint32 v = nat (v mod 4294967296)"

text \<open>
  \<^verbatim>\<open>this->data_size = data_size;
  this->chunk_size = data_size + 36;
  this->bytes_per_block = bits_per_sample * channels / 8;
  this->bytes_per_second = rate * bytes_per_block;\<close>
\<close>

definition update :: "int \<Rightarrow> WavHeader \<Rightarrow> error + WavHeader" where
  "update data_size h =
     bindE (c_add data_size 36) (\<lambda>chunk.
     bindE (c_mul (int (wav_bits_per_sample h)) (int (wav_channels h))) (\<lambda>bits.
     bindE (c_div bits 8) (\<lambda>block.
       Inr (h\<lparr>wav_data_size := to_uint32 data_size,
               wav_chunk_size := to_uint32 chunk,
               wav_bytes_per_block := to_uint16 block,
               wav_bytes_per_second := to_uint32 (int (wav_rate h) * int (to_uint16 block))\<rparr>))))"

text \<open>\<open>littleEndian\<close> returns the copy it takes before converting; on the little-endian
  host the conversions change nothing.\<close>

definition littleEndian :: "WavHeader \<Rightarrow> WavHeader" where
  "littleEndian h = h"

definition le16 :: "nat \<Rightarrow> byte list" where
  "le16 v = [of_nat (v mod 256), of_nat (v div 256 mod 256)]"

definition le32 :: "nat \<Rightarrow> byte list" where
  "le32 v = [of_nat (v mod 256), of_nat (v div 256 mod 256),
             of_nat (v div 65536 mod 256), of_nat (v div 16777216 mod 256)]"

text \<open>The 44 bytes of a \<open>WavHeader\<close> in memory, as \<open>output.write((char *)&le_header,
  sizeof(le_header))\<close> sends them.\<close>

definition header_bytes :: "WavHeader \<Rightarrow> byte list" where
  "header_bytes h =
     [82, 73, 70, 70] @ le32 (wav_chunk_size h) @ [87, 65, 86, 69] @
     [102, 109, 116, 32] @ le32 (wav_fmt_chunk_size h) @ le16 (wav_audio_format h) @
     le16 (wav_channels h) @ le32 (wav_rate h) @ le32 (wav_bytes_per_second h) @
     le16 (wav_bytes_per_block h) @ le16 (wav_bits_per_sample h) @
     [100, 97, 116, 97] @ le32 (wav_data_size h)"

subsection \<open>The output stream\<close>

text \<open>A seekable \<open>std::ostream\<close>: its contents and the put position.\<close>

record ostream =
  contents :: "byte list"
  put_pos :: nat

definition os_write :: "byte list \<Rightarrow> ostream \<Rightarrow> ostream" where
  "os_write bs os =
     os\<lparr>contents := take (put_pos os) (contents os) @ bs @
                      drop (put_pos os + length bs) (contents os),
        put_pos := put_pos os + length bs\<rparr>"

definition seekp :: "nat \<Rightarrow> ostream \<Rightarrow> ostream" where
  "seekp n os = os\<lparr>put_pos := n\<rparr>"

text \<open>The two bytes of an \<open>int16_t\<close> sample in \<open>frame_data\<close>.\<close>

definition sample_bytes :: "int \<Rightarrow> byte list" where
  "sample_bytes v = le16 (to_uint16 v)"

subsection \<open>ILDAWavOutput::run\<close>

record ILDAWavOutput =
  fps :: int
  signals :: string
  invert :: string
  rate :: int
  pps :: int

text \<open>The local variables of \<open>run\<close> that live across its loops.\<close>

record run_state =
  frame_number :: int
  point_number :: int
  total_bytes :: int
  last_x :: int
  last_y :: int
  last_z :: int
  frame_data :: "int list"
  sample_number :: int
  output_stream :: ostream

text \<open>The seven values computed for sub-step \<open>p\<close> of a location.\<close>

record sub_sample =
  ix :: int
  iy :: int
  iz :: int
  il :: int
  ir :: int
  ig :: int
  ib :: int

text \<open>
  \<^verbatim>\<open>int16_t ix = last_x + ((int)dx * p / point_count_of_location);\<close>
\<close>

definition interpolate :: "int \<Rightarrow> int \<Rightarrow> int \<Rightarrow> int \<Rightarrow> error + int" where
  "interpolate last_v d p point_count_of_location =
     bindE (c_mul d p) (\<lambda>m.
     bindE (c_div m point_count_of_location) (\<lambda>q.
     bindE (c_add last_v q) (\<lambda>v. Inr (to_int16 v))))"

text \<open>
  \<^verbatim>\<open>int16_t r = coordinate.r * (std::numeric_limits<int16_t>::max() / std::numeric_limits<uint8_t>::max());\<close>
\<close>

definition scale_color :: "nat \<Rightarrow> error + int" where
  "scale_color c =
     bindE (c_div 32767 255) (\<lambda>k.
     bindE (c_mul (int c) k) (\<lambda>v. Inr (to_int16 v)))"

definition compute_sub_sample ::
  "Point \<Rightarrow> run_state \<Rightarrow> int \<Rightarrow> int \<Rightarrow> int \<Rightarrow> int \<Rightarrow> int \<Rightarrow> error + sub_sample" where
  "compute_sub_sample coordinate st dx dy dz p point_count_of_location =
     bindE (interpolate (last_x st) dx p point_count_of_location) (\<lambda>vx.
     bindE (interpolate (last_y st) dy p point_count_of_location) (\<lambda>vy.
     bindE (interpolate (last_z st) dz p point_count_of_location) (\<lambda>vz.
     bindE (scale_color (pt_r coordinate)) (\<lambda>vr.
     bindE (scale_color (pt_g coordinate)) (\<lambda>vg.
     bindE (scale_color (pt_b coordinate)) (\<lambda>vb.
       Inr \<lparr>ix = vx, iy = vy, iz = vz,
            il = (if pt_r coordinate = 0 \<and> pt_g coordinate = 0 \<and> pt_b coordinate = 0
                  then 0 else 32767),
            ir = vr, ig = vg, ib = vb\<rparr>))))))"

text \<open>The \<open>switch\<close> on a signal character.\<close>

definition signal_value :: "sub_sample \<Rightarrow> char \<Rightarrow> error + int" where
  "signal_value v s =
     (if s = CHR ''x'' then Inr (ix v)
      else if s = CHR ''y'' then Inr (iy v)
      else if s = CHR ''z'' then Inr (iz v)
      else if s = CHR ''l'' then Inr (il v)
      else if s = CHR ''r'' then Inr (ir v)
      else if s = CHR ''g'' then Inr (ig v)
      else if s = CHR ''b'' then Inr (ib v)
      else Inl InvalidSignal)"

text \<open>\<open>frame_data[sample_number] = v; sample_number++;\<close> The vector does not check
  its index.\<close>

definition store_sample :: "int \<Rightarrow> run_state \<Rightarrow> error + run_state" where
  "store_sample v st =
     (if 0 \<le> sample_number st \<and> sample_number st < int (length (frame_data st))
      then Inr (st\<lparr>frame_data := (frame_data st)[nat (sample_number st) := v],
                   sample_number := sample_number st + 1\<rparr>)
      else Inl UndefinedBehaviour)"

text \<open>The body of the loop over \<open>q\<close>: one value for every signal.\<close>

definition emit_signals :: "ILDAWavOutput \<Rightarrow> sub_sample \<Rightarrow> run_state \<Rightarrow> error + run_state" where
  "emit_signals w v st =
     for_loop (signals w) (\<lambda>s st. bindE (signal_value v s) (\<lambda>a. store_sample a st)) st"

text \<open>The body of the loop over \<open>p\<close>.\<close>

definition emit_point ::
  "ILDAWavOutput \<Rightarrow> Point \<Rightarrow> int \<Rightarrow> int \<Rightarrow> int \<Rightarrow> int \<Rightarrow> nat \<Rightarrow> run_state \<Rightarrow> error + run_state" where
  "emit_point w coordinate dx dy dz point_count_of_location p st =
     bindE (compute_sub_sample coordinate st dx dy dz (int p) point_count_of_location) (\<lambda>v.
     bindE (groupSizeOfNthGroup (rate w) (pps w) (point_number st)) (\<lambda>samples_of_location.
     bindE (for_loop [0..<nat samples_of_location] (\<lambda>q. emit_signals w v) st) (\<lambda>st1.
     bindE (c_add (point_number st1) 1) (\<lambda>n.
       Inr (st1\<lparr>point_number := n\<rparr>)))))"

text \<open>The body of the loop over the locations \<open>i\<close> of a frame.\<close>

definition emit_location ::
  "ILDAWavOutput \<Rightarrow> Frame \<Rightarrow> int \<Rightarrow> int \<Rightarrow> nat \<Rightarrow> run_state \<Rightarrow> error + run_state" where
  "emit_location w frame point_count location_count i st =
     bindE (groupSizeOfNthGroup point_count location_count (int i)) (\<lambda>point_count_of_location.
       if point_count_of_location = 0 then Inr st
       else
         (let coordinate = points frame ! i;
              x = (if CHR ''x'' \<in> set (invert w) then to_int16 (pt_x coordinate * - 1)
                   else pt_x coordinate);
              y = (if CHR ''y'' \<in> set (invert w) then to_int16 (pt_y coordinate * - 1)
                   else pt_y coordinate);
              z = (if CHR ''z'' \<in> set (invert w) then to_int16 (pt_z coordinate * - 1)
                   else pt_z coordinate);
              dx = to_int16 (x - last_x st);
              dy = to_int16 (y - last_y st);
              dz = to_int16 (z - last_z st)
          in bindE (for_loop [1..<nat point_count_of_location + 1]
                      (emit_point w coordinate dx dy dz point_count_of_location) st)
               (\<lambda>st1. Inr (st1\<lparr>last_x := x, last_y := y, last_z := z\<rparr>))))"

text \<open>The body of the \<open>while\<close> loop: one frame. \<open>sizeof(int16_t)\<close> is 2, and the
  product is a \<open>size_t\<close> converted to \<open>int\<close>.\<close>

definition emit_frame :: "ILDAWavOutput \<Rightarrow> Frame \<Rightarrow> run_state \<Rightarrow> error + run_state" where
  "emit_frame w frame st0 =
     (let st = st0\<lparr>sample_number := 0\<rparr> in
      bindE (c_mod (frame_number st) (fps w)) (\<lambda>frame_in_second.
      let st1 = (if frame_in_second = 0 then st\<lparr>point_number := 0\<rparr> else st) in
      bindE (groupSizeOfNthGroup (pps w) (fps w) frame_in_second) (\<lambda>point_count.
      let location_count = to_int32 (int (length (points frame))) in
      bindE (for_loop [0..<nat location_count]
               (emit_location w frame point_count location_count) st1) (\<lambda>st2.
      let bytes = to_int32 (sample_number st2 * 2) in
      if bytes < 0 then Inl WriteFailure
      else
        bindE (c_add (total_bytes st2) bytes) (\<lambda>total.
        bindE (c_add (frame_number st2) 1) (\<lambda>n.
          Inr (st2\<lparr>output_stream := os_write (take (nat bytes)
                                        (concat (map sample_bytes (frame_data st2)))) (output_stream st2),
                   total_bytes := total,
                   frame_number := n\<rparr>)))))))"

text \<open>The locals of \<open>run\<close> before the first frame; \<open>n\<close> is the length of
  \<open>frame_data\<close>.\<close>

definition initial_state :: "nat \<Rightarrow> ostream \<Rightarrow> run_state" where
  "initial_state n os =
     \<lparr>frame_number = 0, point_number = 0, total_bytes = 0,
      last_x = 0, last_y = 0, last_z = 0,
      frame_data = replicate n 0, sample_number = 0,
      output_stream = os\<rparr>"

text \<open>
  \<open>run\<close>, for the frames that \<open>input.nextFrame()\<close> hands out before its first
  \<open>nullptr\<close>, on an output stream \<open>os\<close>.
\<close>

definition run :: "ILDAWavOutput \<Rightarrow> Frame list \<Rightarrow> ostream \<Rightarrow> error + ostream" where
  "run w frames os =
     (let channel_count = to_int32 (int (length (signals w)));
          header0 = \<lparr>wav_chunk_size = 0, wav_fmt_chunk_size = 16, wav_audio_format = 1,
                     wav_channels = to_uint16 channel_count, wav_rate = to_uint32 (rate w),
                     wav_bytes_per_second = 0, wav_bytes_per_block = 0,
                     wav_bits_per_sample = 16, wav_data_size = 0\<rparr>
      in
      bindE (update 0 header0) (\<lambda>header1.
      let os1 = os_write (header_bytes (littleEndian header1)) os in
      bindE (c_mul (rate w) channel_count) (\<lambda>buffer_size.
      if buffer_size < 0 then Inl AllocationFailure
      else
        bindE (for_loop frames (emit_frame w) (initial_state (nat buffer_size) os1)) (\<lambda>st.
        bindE (update (total_bytes st) header1) (\<lambda>header2.
          Inr (os_write (header_bytes (littleEndian header2)) (seekp 0 (output_stream st))))))))"

text \<open>An output file that is empty when \<open>run\<close> starts.\<close>

definition empty_ostream :: ostream where
  "empty_ostream = \<lparr>contents = [], put_pos = 0\<rparr>"

section \<open>The specification's formulas\<close>

text \<open>The group size as the specification words it: \<open>T div G\<close>, plus one exactly when
  \<open>(i * (T mod G)) mod G > ((i+1) * (T mod G)) mod G\<close>, on unbounded integers.\<close>

definition spec_groupSize :: "int \<Rightarrow> int \<Rightarrow> int \<Rightarrow> int" where
  "spec_groupSize T G i =
     T div G + (if (i * (T mod G)) mod G > ((i + 1) * (T mod G)) mod G then 1 else 0)"

text \<open>The interpolated position as the specification words it:
  \<open>last + (current - last) * p / k\<close>, truncated, on unbounded integers.\<close>

definition spec_interpolate :: "int \<Rightarrow> int \<Rightarrow> int \<Rightarrow> int \<Rightarrow> int" where
  "spec_interpolate last_v current p k = last_v + ((current - last_v) * p) sdiv k"

text \<open>The colour scaling as the specification words it: \<open>channel_value * 32767 / 255\<close>.\<close>

definition spec_scale :: "nat \<Rightarrow> int" where
  "spec_scale c = (int c * 32767) sdiv 255"

text \<open>Reading the produced file: a little-endian 32-bit field at an offset; the declared
  total chunk size is at offset 4 and the declared data length at offset 40.\<close>

definition read_le32 :: "byte list \<Rightarrow> nat \<Rightarrow> nat" where
  "read_le32 bs off =
     unat (bs ! off) + 256 * unat (bs ! (off + 1)) + 65536 * unat (bs ! (off + 2)) +
     16777216 * unat (bs ! (off + 3))"

definition declared_chunk_size :: "byte list \<Rightarrow> nat" where
  "declared_chunk_size bs = read_le32 bs 4"

definition declared_data_length :: "byte list \<Rightarrow> nat" where
  "declared_data_length bs = read_le32 bs 40"

section \<open>Invariants of the encoder's loops\<close>

text \<open>What the loops inside a frame leave alone: the output stream, the byte and frame
  counters and the length of \<open>frame_data\<close>; and \<open>sample_number\<close> stays within
  \<open>frame_data\<close>.\<close>

definition within_frame :: "run_state \<Rightarrow> run_state \<Rightarrow> bool" where
  "within_frame st st' \<longleftrightarrow>
     output_stream st' = output_stream st \<and> total_bytes st' = total_bytes st \<and>
     frame_number st' = frame_number st \<and>
     length (frame_data st') = length (frame_data st) \<and>
     (0 \<le> sample_number st \<and> sample_number st \<le> int (length (frame_data st)) \<longrightarrow>
      0 \<le> sample_number st' \<and> sample_number st' \<le> int (length (frame_data st')))"

text \<open>Between two frames: the file is the first header followed by \<open>total_bytes\<close> bytes
  of samples, and the put position is at its end.\<close>

definition between_frames :: "byte list \<Rightarrow> run_state \<Rightarrow> bool" where
  "between_frames hb st \<longleftrightarrow>
     int (length (frame_data st)) \<le> INT_MAX \<and>
     (\<exists>d. contents (output_stream st) = hb @ d \<and>
          put_pos (output_stream st) = length hb + length d \<and>
          total_bytes st = int (length d))"






section \<open>Inputs of the decoder\<close>

text \<open>A decoder that has not read anything yet, on the bytes \<open>bs\<close>.\<close>

definition fresh_stream :: "byte list \<Rightarrow> ILDAIStream" where
  "fresh_stream bs =
     \<lparr>input = bs, header = [], current_frame = \<lparr>projector = 0, points = []\<rparr>,
      number_of_records = 0, palettes = Map.empty\<rparr>"

text \<open>A header block for \<open>n\<close> records: 32 bytes, the magic tag and a zero byte after it,
  the format code, the record count in big-endian order, the projector.\<close>

definition block_header :: "byte list \<Rightarrow> byte \<Rightarrow> nat \<Rightarrow> byte \<Rightarrow> bool" where
  "block_header h fmt n pid \<longleftrightarrow>
     length h = 32 \<and> take 4 h = ILDA_literal \<and> h ! 4 = 0 \<and> h ! 7 = fmt \<and>
     256 * unat (h ! 24) + unat (h ! 25) = n \<and> h ! 30 = pid"

text \<open>A header with zero name, company, frame number and total, and reserved byte
  \<open>ra\<close> after the magic tag.\<close>

definition make_header :: "byte \<Rightarrow> byte \<Rightarrow> byte \<Rightarrow> byte \<Rightarrow> byte \<Rightarrow> byte list" where
  "make_header ra fmt n_hi n_lo pid =
     [73, 76, 68, 65, ra, 0, 0, fmt, 0, 0, 0, 0, 0, 0, 0, 0,
      0, 0, 0, 0, 0, 0, 0, 0, n_hi, n_lo, 0, 0, 0, 0, pid, 0]"

definition color_bytes :: "ILDAColor \<Rightarrow> byte list" where
  "color_bytes c = [col_r c, col_g c, col_b c]"

text \<open>The scenario of the specification: a palette block for projector 7 with the
  entries (255,0,0) and (0,255,0), then an indexed 3D block for projector 7 with one record
  (x = 1, y = 2, z = 3, status 0, colour index 1).\<close>

definition scenario_palette :: "ILDAColor list" where
  "scenario_palette = [ILDAColor 255 0 0, ILDAColor 0 255 0]"

definition scenario_record :: "byte list" where
  "scenario_record = [1, 0, 2, 0, 3, 0, 0, 1]"

definition scenario_bytes :: "byte list" where
  "scenario_bytes =
     make_header 0 2 0 2 7 @ concat (map color_bytes scenario_palette) @
     make_header 0 0 0 1 7 @ concat [scenario_record] @ []"

text \<open>An indexed 3D block for projector 7 with the record of the scenario, followed by the
  palette block of the scenario.\<close>

definition frame_then_palette_bytes :: "byte list" where
  "frame_then_palette_bytes =
     make_header 0 0 0 1 7 @ concat [scenario_record] @
     make_header 0 2 0 2 7 @ concat (map color_bytes scenario_palette) @ []"

text \<open>A block of format 1 (2D indexed) with one 6-byte record (x = 1, y = 2, status 0,
  colour index 5), followed by the header with no records that ends the stream.\<close>

definition indexed_2d_bytes :: "byte list" where
  "indexed_2d_bytes =
     make_header 0 1 0 1 0 @ [1, 0, 2, 0, 0, 5] @ make_header 0 0 0 0 0"

text \<open>The palette block of the scenario, then a block of format 1 (2D indexed) for
  projector 7 with one 6-byte record (x = 1, y = 2, status 0, colour index 1), then the
  header with no records.\<close>

definition palette_then_2d_bytes :: "byte list" where
  "palette_then_2d_bytes =
     make_header 0 2 0 2 7 @ concat (map color_bytes scenario_palette) @
     (make_header 0 1 0 1 7 @ [1, 0, 2, 0, 0, 1] @ make_header 0 0 0 0 0)"

section \<open>Inputs of the encoder\<close>

definition red_point :: "int \<Rightarrow> Point" where
  "red_point v = \<lparr>pt_x = v, pt_y = 0, pt_z = 0, pt_r = 255, pt_g = 0, pt_b = 0\<rparr>"

text \<open>One frame per second, two points per second, two samples per second, the x signal
  only; two frames with one point each, at \<open>x = -20000\<close> and at \<open>x = 20000\<close>.\<close>

definition far_params :: ILDAWavOutput where
  "far_params = \<lparr>fps = 1, signals = ''x'', invert = '''', rate = 2, pps = 2\<rparr>"

definition far_frames :: "Frame list" where
  "far_frames = [\<lparr>projector = 0, points = [red_point (- 20000)]\<rparr>,
                 \<lparr>projector = 0, points = [red_point 20000]\<rparr>]"

definition far_output :: ostream where
  "far_output =
     \<lparr>contents =
        [82, 73, 70, 70, 44, 0, 0, 0, 87, 65, 86, 69, 102, 109, 116, 32, 16,
         0, 0, 0, 1, 0, 1, 0, 2, 0, 0, 0, 4, 0, 0, 0, 2, 0, 16, 0, 100, 97,
         116, 97, 8, 0, 0, 0, 240, 216, 224, 177, 0, 128, 32, 78],
      put_pos = 44\<rparr>"



section \<open>Arithmetic of the model\<close>

lemma chk_ok: "INT_MIN \<le> v \<Longrightarrow> v \<le> INT_MAX \<Longrightarrow> chk v = Inr v"
  by (simp add: chk_def)

lemma bindE_Inr [simp]: "bindE (Inr v) f = f v"
  by (simp add: bindE_def)

lemma bindE_Inl [simp]: "bindE (Inl e) f = Inl e"
  by (simp add: bindE_def)

lemma sdiv_nonneg: "0 \<le> a \<Longrightarrow> 0 < b \<Longrightarrow> a sdiv b = a div (b::int)"
  by (simp add: signed_divide_int_def sgn_if)

lemma smod_nonneg: "0 \<le> a \<Longrightarrow> 0 < b \<Longrightarrow> a smod b = a mod (b::int)"
  by (simp add: signed_modulo_int_def sgn_if)

lemma c_div_nonneg:
  assumes "0 \<le> a" "a \<le> INT_MAX" "0 < b"
  shows "c_div a b = Inr (a div b)"
proof -
  have "a div b \<le> a div 1" using assms by (intro zdiv_mono2) simp_all
  then have "a div b \<le> a" by simp
  moreover have "0 \<le> a div b" using assms by (simp add: pos_imp_zdiv_nonneg_iff)
  ultimately show ?thesis
    using assms by (simp add: c_div_def sdiv_nonneg chk_def INT_MIN_def)
qed

lemma c_mod_nonneg:
  assumes "0 \<le> a" "0 < b"
  shows "c_mod a b = Inr (a mod b)"
  using assms by (simp add: c_mod_def smod_nonneg INT_MIN_def)

lemma product_fits:
  fixes i r G :: int
  assumes "0 \<le> i" "i \<le> G" "0 \<le> r" "r < G" "G \<le> 46341"
  shows "0 \<le> i * r" "i * r \<le> INT_MAX"
proof -
  show "0 \<le> i * r" using assms by simp
  have "i * r \<le> 46341 * 46340"
    by (rule mult_mono) (use assms in simp_all)
  then show "i * r \<le> INT_MAX" by (simp add: INT_MAX_def)
qed

theorem groupSizeOfNthGroup_in_range:
  assumes T: "0 \<le> T" "T \<le> INT_MAX" and G: "1 \<le> G" "G \<le> 46341" and i: "0 \<le> i" "i < G"
  shows "groupSizeOfNthGroup T G i = Inr (spec_groupSize T G i)"
proof -
  define r where "r = T mod G"
  have r: "0 \<le> r" "r < G" using G by (simp_all add: r_def)
  have f1: "0 \<le> i * r" "i * r \<le> INT_MAX"
    using product_fits[of i G r] i r G by simp_all
  have f2: "0 \<le> (i + 1) * r" "(i + 1) * r \<le> INT_MAX"
    using product_fits[of "i + 1" G r] i r G by simp_all
  have p1: "c_mul i r = Inr (i * r)"
    unfolding c_mul_def using f1 by (intro chk_ok) (simp_all add: INT_MIN_def)
  have p2: "c_mul (i + 1) r = Inr ((i + 1) * r)"
    unfolding c_mul_def using f2 by (intro chk_ok) (simp_all add: INT_MIN_def)
  have i1: "c_add i 1 = Inr (i + 1)"
    unfolding c_add_def using i G by (intro chk_ok) (simp_all add: INT_MIN_def INT_MAX_def)
  have m1: "c_mod (i * r) G = Inr ((i * r) mod G)"
    using f1 G by (intro c_mod_nonneg) simp_all
  have m2: "c_mod ((i + 1) * r) G = Inr (((i + 1) * r) mod G)"
    using f2 G by (intro c_mod_nonneg) simp_all
  have base: "c_div T G = Inr (T div G)" using T G by (intro c_div_nonneg) simp_all
  have rest: "c_mod T G = Inr r" unfolding r_def using T G by (intro c_mod_nonneg) simp_all
  have b0: "0 \<le> T div G" using T G by (simp add: pos_imp_zdiv_nonneg_iff)
  have extra: "c_add (T div G) 1 = Inr (T div G + 1)"
    if "(i * r) mod G > ((i + 1) * r) mod G"
  proof -
    have "G \<noteq> 1" using that by auto
    then have "2 \<le> G" using G by simp
    then have "T div G \<le> T div 2" using T by (intro zdiv_mono2) simp_all
    also have "\<dots> \<le> INT_MAX div 2" using T by (intro zdiv_mono1) simp_all
    finally have "T div G + 1 \<le> INT_MAX" by (simp add: INT_MAX_def)
    then show ?thesis unfolding c_add_def using b0 by (intro chk_ok) (simp_all add: INT_MIN_def)
  qed
  show ?thesis
    unfolding groupSizeOfNthGroup_def spec_groupSize_def r_def[symmetric]
    using extra by (simp add: base rest p1 p2 i1 m1 m2)
qed

lemma extra_step:
  fixes r G i :: int
  assumes "0 \<le> r" "r < G" "0 \<le> i"
  shows "(if (i * r) mod G > ((i + 1) * r) mod G then 1 else 0) =
         ((i + 1) * r) div G - (i * r) div G"
proof -
  define a where "a = (i * r) mod G"
  define q where "q = (i * r) div G"
  have G: "0 < G" using assms by simp
  have a: "0 \<le> a" "a < G" using G by (simp_all add: a_def)
  have ir: "i * r = G * q + a" by (simp add: a_def q_def)
  have nx: "(i + 1) * r = G * q + (a + r)" using ir by (simp add: algebra_simps)
  show ?thesis
  proof (cases "a + r < G")
    case True
    have "0 \<le> a + r" using a assms by simp
    then have m: "((i + 1) * r) mod G = a + r" and d: "((i + 1) * r) div G = q"
      using True nx by (auto intro: int_mod_pos_eq int_div_pos_eq)
    show ?thesis using m d assms by (simp add: a_def[symmetric] q_def[symmetric])
  next
    case False
    have eq: "(i + 1) * r = G * (q + 1) + (a + r - G)" using nx by (simp add: algebra_simps)
    have rng: "0 \<le> a + r - G" "a + r - G < G" using False a assms by simp_all
    have m: "((i + 1) * r) mod G = a + r - G"
      using eq rng by (rule int_mod_pos_eq)
    have d: "((i + 1) * r) div G = q + 1"
      using eq rng by (rule int_div_pos_eq)
    show ?thesis using m d assms a by (simp add: a_def[symmetric] q_def[symmetric])
  qed
qed

lemma extra_sum:
  fixes r G :: int
  assumes "0 \<le> r" "r < G"
  shows "(\<Sum>k<n. (if (int k * r) mod G > ((int k + 1) * r) mod G then 1 else 0 :: int)) = (int n * r) div G"
proof (induction n)
  case 0 show ?case by simp
next
  case (Suc n)
  have "(if (int n * r) mod G > ((int n + 1) * r) mod G then 1 else 0) =
         ((int n + 1) * r) div G - (int n * r) div G"
    using extra_step[OF assms, of "int n"] by simp
  with Suc show ?case by (simp add: algebra_simps)
qed

lemma spec_groupSize_sum_nat:
  assumes "0 \<le> T" "1 \<le> G"
  shows "(\<Sum>k<nat G. spec_groupSize T G (int k)) = T"
proof -
  have r: "0 \<le> T mod G" "T mod G < G" using assms by simp_all
  have "(\<Sum>k<nat G. spec_groupSize T G (int k)) = int (nat G) * (T div G) + (int (nat G) * (T mod G)) div G"
    unfolding spec_groupSize_def by (simp add: sum.distrib extra_sum[OF r])
  also have "\<dots> = G * (T div G) + T mod G" using assms by simp
  finally show ?thesis by simp
qed

lemma sum_int_interval: 
  "0 \<le> G \<Longrightarrow> (\<Sum>i\<in>{0..<G}. f i) = (\<Sum>k<nat G. f (int k))"
proof -
  assume G: "0 \<le> G"
  have "{0..<G} = int ` {..<nat G}"
  proof (rule set_eqI)
    fix x show "x \<in> {0..<G} \<longleftrightarrow> x \<in> int ` {..<nat G}"
    proof
      assume "x \<in> {0..<G}"
      then have "x = int (nat x)" "nat x < nat G" by auto
      then show "x \<in> int ` {..<nat G}" by blast
    next
      assume "x \<in> int ` {..<nat G}"
      then show "x \<in> {0..<G}" by auto
    qed
  qed
  then show ?thesis by (simp add: sum.reindex)
qed

theorem spec_groupSize_fair:
  assumes "0 \<le> T" "1 \<le> G"
  shows "(\<Sum>i\<in>{0..<G}. spec_groupSize T G i) = T"
    and "spec_groupSize T G i - spec_groupSize T G j \<le> 1"
  using assms spec_groupSize_sum_nat[OF assms] 
  by (simp_all add: sum_int_interval) (simp add: spec_groupSize_def)


section \<open>Fair remainder distribution\<close>

text \<open>
  C1. The claim: for every \<open>T \<ge> 0\<close> and \<open>G \<ge> 1\<close>, \<open>groupSizeOfNthGroup(T, G, i)\<close> is the
  specification's formula, and the sizes over \<open>i\<close> in \<open>[0, G)\<close> sum to \<open>T\<close> and differ by at
  most one. The formula has those two properties (\<open>spec_groupSize_fair\<close>), and the code
  computes it as long as the products \<open>index * rest\<close> and \<open>(index + 1) * rest\<close> fit an
  \<open>int\<close>, for instance for \<open>G \<le> 46341\<close> (\<open>groupSizeOfNthGroup_in_range\<close>). Above that
  the products overflow: with a sample rate of 96000 and 60000 points per second, at
  point 59652 of a second, \<open>(index + 1) * rest\<close> is \<open>59653 * 36000 = 2147508000\<close>, beyond
  \<open>INT_MAX\<close>, where the formula gives the size 1.
\<close>

theorem groupSizeOfNthGroup_overflow:
  "groupSizeOfNthGroup 96000 60000 59652 = Inl UndefinedBehaviour \<and>
   spec_groupSize 96000 60000 59652 = 1"
  by (simp add: groupSizeOfNthGroup_def c_div_def c_mod_def c_mul_def c_add_def chk_def
        INT_MAX_def INT_MIN_def signed_divide_int_def signed_modulo_int_def spec_groupSize_def)

text \<open>
  C4. The claim: for the total 10 over 3 groups the sizes are 4, 3, 3 for the groups 0, 1, 2.
  The extra unit goes to the last group, not the first: the code returns 3, 3, 4.
\<close>

theorem groupSize_10_3_counterexample:
  "\<not> (groupSizeOfNthGroup 10 3 0 = Inr 4 \<and> groupSizeOfNthGroup 10 3 1 = Inr 3 \<and>
      groupSizeOfNthGroup 10 3 2 = Inr 3)"
  by (simp add: groupSizeOfNthGroup_def c_div_def c_mod_def c_mul_def c_add_def chk_def
        INT_MAX_def INT_MIN_def signed_divide_int_def signed_modulo_int_def)

text \<open>
  C4, amended: for the total 10 over 3 groups the sizes are 3, 3, 4 for the groups 0, 1, 2
  (sum 10).
\<close>

theorem groupSize_10_3:
  "groupSizeOfNthGroup 10 3 0 = Inr 3 \<and> groupSizeOfNthGroup 10 3 1 = Inr 3 \<and>
   groupSizeOfNthGroup 10 3 2 = Inr 4"
  by (simp add: groupSizeOfNthGroup_def c_div_def c_mod_def c_mul_def c_add_def chk_def
        INT_MAX_def INT_MIN_def signed_divide_int_def signed_modulo_int_def)

section \<open>The decoder, block by block\<close>

lemma c_string_magic:
  assumes "5 \<le> length bs"
  shows "c_string bs = ILDA_literal \<longleftrightarrow> take 4 bs = ILDA_literal \<and> bs ! 4 = 0"
proof -
  obtain b0 b1 b2 b3 b4 r where bs: "bs = b0 # b1 # b2 # b3 # b4 # r"
    using assms by (auto simp: Suc_le_length_iff eval_nat_numeral)
  show ?thesis
    unfolding bs c_string_def ILDA_literal_def by auto
qed

lemma read_prefix:
  "length bs = n \<Longrightarrow> input s = bs @ rest \<Longrightarrow> read n s = Inr (bs, s\<lparr>input := rest\<rparr>)"
  by (simp add: read_def)

lemma big_to_native_uint16:
  "big_to_native (native_uint16 b0 b1) = 256 * unat b0 + unat b1"
proof -
  have "unat b0 < 256" using unsigned_less[of b0] by simp
  then show ?thesis by (simp add: big_to_native_def native_uint16_def)
qed

lemma readHeader_block:
  assumes "block_header h fmt n pid" "input s = h @ rest"
  shows "readHeader s = Inr (s\<lparr>input := rest, header := h, number_of_records := n\<rparr>)"
proof -
  have len: "length h = 32" using assms by (simp add: block_header_def)
  have cs: "c_string h = ILDA_literal"
    using assms c_string_magic[of h] by (simp add: block_header_def)
  have n: "big_to_native (hdr_number_of_records h) = n"
    using assms unfolding hdr_number_of_records_def big_to_native_uint16
    by (simp add: block_header_def)
  show ?thesis
    unfolding readHeader_def sizeof_ilda_header_def
    by (simp add: read_prefix[OF len assms(2)] cs n)
qed

lemma palette_fill:
  assumes "palettes s (hdr_projector_id (header s)) = Some pal"
    and "i + length cs = length pal"
    and "input s = concat (map color_bytes cs) @ rest"
  shows "for_loop [i..<i + length cs]
           (\<lambda>i s. bindE (read 3 s) (\<lambda>(c, s1).
              set_palette_entry i (ILDAColor (c ! 0) (c ! 1) (c ! 2)) s1)) s =
         Inr (s\<lparr>input := rest,
                palettes := (palettes s)(hdr_projector_id (header s) \<mapsto> take i pal @ cs)\<rparr>)"
  using assms
proof (induction cs arbitrary: i s pal)
  case Nil
  then have "(palettes s)(hdr_projector_id (header s) \<mapsto> pal) = palettes s"
    by (simp add: map_upd_triv)
  with Nil show ?case by simp
next
  case (Cons c cs)
  define body where "body = (\<lambda>i s. bindE (read 3 s) (\<lambda>(c, s1).
              set_palette_entry i (ILDAColor (c ! 0) (c ! 1) (c ! 2)) s1))"
  let ?s1 = "s\<lparr>input := concat (map color_bytes cs) @ rest\<rparr>"
  let ?s2 = "?s1\<lparr>palettes := (palettes s)(hdr_projector_id (header s) \<mapsto> pal[i := c])\<rparr>"
  have i: "i < length pal" using Cons.prems by simp
  have len3: "length (color_bytes c) = 3" by (simp add: color_bytes_def)
  have inp: "input s = color_bytes c @ (concat (map color_bytes cs) @ rest)"
    using Cons.prems by simp
  have rd: "read 3 s = Inr (color_bytes c, ?s1)"
    by (rule read_prefix[OF len3 inp])
  have c: "ILDAColor (color_bytes c ! 0) (color_bytes c ! 1) (color_bytes c ! 2) = c"
    by (cases c) (simp add: color_bytes_def)
  have st: "set_palette_entry i c ?s1 = Inr ?s2"
    using Cons.prems i by (simp add: set_palette_entry_def)
  have step: "body i s = Inr ?s2"
    unfolding body_def rd bindE_Inr prod.case c by (rule st)
  have ih: "for_loop [Suc i..<Suc i + length cs] body ?s2 =
         Inr (?s2\<lparr>input := rest,
                palettes := (palettes ?s2)(hdr_projector_id (header ?s2) \<mapsto> take (Suc i) (pal[i := c]) @ cs)\<rparr>)"
    unfolding body_def using Cons.prems by (intro Cons.IH) simp_all
  have tk: "take (Suc i) (pal[i := c]) = take i pal @ [c]"
    using i by (simp add: take_Suc_conv_app_nth)
  have "i < i + length (c # cs)" by simp
  then have "[i..<i + length (c # cs)] = i # [Suc i..<i + length (c # cs)]"
    by (rule upt_conv_Cons)
  moreover have "i + length (c # cs) = Suc i + length cs" by simp
  ultimately have up: "[i..<i + length (c # cs)] = i # [Suc i..<Suc i + length cs]"
    by (simp only:)
  have "for_loop [i..<i + length (c # cs)] body s =
          Inr (?s2\<lparr>input := rest,
                palettes := (palettes ?s2)(hdr_projector_id (header ?s2) \<mapsto> take (Suc i) (pal[i := c]) @ cs)\<rparr>)"
    by (simp only: up for_loop.simps step bindE_Inr ih)
  also have "?s2\<lparr>input := rest,
                palettes := (palettes ?s2)(hdr_projector_id (header ?s2) \<mapsto> take (Suc i) (pal[i := c]) @ cs)\<rparr> =
       s\<lparr>input := rest,
                palettes := (palettes s)(hdr_projector_id (header s) \<mapsto> take i pal @ c # cs)\<rparr>"
    by (simp add: tk)
  finally show ?case unfolding body_def .
qed

lemma setColorPalette_block:
  assumes "input s = concat (map color_bytes cs) @ rest" "number_of_records s = length cs"
  shows "setColorPalette s =
           Inr (s\<lparr>input := rest, palettes := (palettes s)(hdr_projector_id (header s) \<mapsto> cs)\<rparr>)"
proof -
  let ?s = "s\<lparr>palettes := (palettes s)(hdr_projector_id (header s) \<mapsto>
                   replicate (length cs) (ILDAColor 0 0 0))\<rparr>"
  have "for_loop [0..<0 + length cs]
           (\<lambda>i s. bindE (read 3 s) (\<lambda>(c, s1).
              set_palette_entry i (ILDAColor (c ! 0) (c ! 1) (c ! 2)) s1)) ?s =
         Inr (?s\<lparr>input := rest,
                palettes := (palettes ?s)(hdr_projector_id (header ?s) \<mapsto>
                   take 0 (replicate (length cs) (ILDAColor 0 0 0)) @ cs)\<rparr>)"
    using assms by (intro palette_fill) simp_all
  then show ?thesis
    using assms by (simp add: setColorPalette_def Let_def)
qed

lemma frame_fill:
  assumes "\<forall>c\<in>set recs. length c = n" "input s = concat recs @ rest" "length xs = length recs"
  shows "for_loop xs (\<lambda>i s. bindE (read n s) (\<lambda>(c, s1). Inr (push_back (f c) s1))) s =
         Inr (s\<lparr>input := rest,
                current_frame := (current_frame s)\<lparr>points :=
                   points (current_frame s) @ map f recs\<rparr>\<rparr>)"
  using assms
proof (induction recs arbitrary: xs s)
  case Nil
  then show ?case by simp
next
  case (Cons c recs)
  then obtain x xs' where xs: "xs = x # xs'" "length xs' = length recs"
    by (cases xs) auto
  let ?s1 = "s\<lparr>input := concat recs @ rest\<rparr>"
  have rd: "read n s = Inr (c, ?s1)"
    using Cons.prems by (intro read_prefix) simp_all
  have ih: "for_loop xs' (\<lambda>i s. bindE (read n s) (\<lambda>(c, s1). Inr (push_back (f c) s1)))
              (push_back (f c) ?s1) =
         Inr ((push_back (f c) ?s1)\<lparr>input := rest,
                current_frame := (current_frame (push_back (f c) ?s1))\<lparr>points :=
                   points (current_frame (push_back (f c) ?s1)) @ map f recs\<rparr>\<rparr>)"
    using Cons.prems xs by (intro Cons.IH) (simp_all add: push_back_def)
  show ?case
    unfolding xs by (simp add: rd ih) (simp add: push_back_def)
qed

lemma nextFrame_palette_block:
  assumes "block_header h 2 (length cs) pid" "cs \<noteq> []"
    and "input s = h @ concat (map color_bytes cs) @ rest"
  shows "nextFrame s =
           Inr (Some (current_frame s),
                s\<lparr>input := rest, header := h, number_of_records := length cs,
                   palettes := (palettes s)(pid \<mapsto> cs)\<rparr>)"
proof -
  let ?s1 = "s\<lparr>input := concat (map color_bytes cs) @ rest, header := h,
                 number_of_records := length cs\<rparr>"
  have rh: "readHeader s = Inr ?s1"
    using readHeader_block[OF assms(1,3)] by simp
  have fmt: "hdr_format h = 2" "hdr_projector_id h = pid"
    using assms(1) by (simp_all add: block_header_def hdr_format_def hdr_projector_id_def)
  have sp: "setColorPalette ?s1 =
      Inr (?s1\<lparr>input := rest, palettes := (palettes ?s1)(hdr_projector_id (header ?s1) \<mapsto> cs)\<rparr>)"
    by (intro setColorPalette_block) simp_all
  show ?thesis
    unfolding nextFrame_def using assms(2) by (simp add: rh fmt sp)
qed


lemma nextFrame_indexed_3d_block:
  assumes "block_header h 0 (length recs) pid" "recs \<noteq> []" "\<forall>c\<in>set recs. length c = 8"
    and "input s = h @ concat recs @ rest"
  shows "nextFrame s =
           Inr (Some \<lparr>projector = pid,
                      points = map (point_3d_indexed
                        (case palettes s pid of None \<Rightarrow> default_palette | Some pal \<Rightarrow> pal)) recs\<rparr>,
                s\<lparr>input := rest, header := h, number_of_records := length recs,
                   current_frame := \<lparr>projector = pid,
                      points = map (point_3d_indexed
                        (case palettes s pid of None \<Rightarrow> default_palette | Some pal \<Rightarrow> pal)) recs\<rparr>\<rparr>)"
proof -
  let ?s1 = "s\<lparr>input := concat recs @ rest, header := h, number_of_records := length recs\<rparr>"
  let ?pal = "case palettes s pid of None \<Rightarrow> default_palette | Some pal \<Rightarrow> pal"
  have rh: "readHeader s = Inr ?s1"
    using readHeader_block[OF assms(1,4)] by simp
  have fmt: "hdr_format h = 0" "hdr_projector_id h = pid"
    using assms(1) by (simp_all add: block_header_def hdr_format_def hdr_projector_id_def)
  have lp: "lookup_palette (begin_frame ?s1) = ?pal"
    by (simp add: lookup_palette_def begin_frame_def fmt)
  have loop: "for_loop [0..<length recs]
       (\<lambda>i s. bindE (read 8 s) (\<lambda>(c, s1). Inr (push_back (point_3d_indexed ?pal c) s1)))
       (begin_frame ?s1) =
     Inr ((begin_frame ?s1)\<lparr>input := rest,
            current_frame := (current_frame (begin_frame ?s1))\<lparr>points :=
               points (current_frame (begin_frame ?s1)) @ map (point_3d_indexed ?pal) recs\<rparr>\<rparr>)"
    using assms(3) by (intro frame_fill) (simp_all add: begin_frame_def)
  have fr: "frameFrom3dCoordinatesIndexed ?s1 =
     Inr ((begin_frame ?s1)\<lparr>input := rest,
            current_frame := (current_frame (begin_frame ?s1))\<lparr>points :=
               points (current_frame (begin_frame ?s1)) @ map (point_3d_indexed ?pal) recs\<rparr>\<rparr>)"
    unfolding frameFrom3dCoordinatesIndexed_def Let_def lp
    using loop by (simp add: begin_frame_def)
  show ?thesis
    unfolding nextFrame_def using assms(2) by (simp add: rh fmt fr) (simp add: begin_frame_def fmt)
qed

lemma indexed_point_colour:
  assumes "unat color < length palette" "\<not> status_blanked status"
  shows "pt_r (indexed_point palette x y z status color) = unat (col_r (palette ! unat color))"
    and "pt_g (indexed_point palette x y z status color) = unat (col_g (palette ! unat color))"
    and "pt_b (indexed_point palette x y z status color) = unat (col_b (palette ! unat color))"
  using assms by (simp_all add: indexed_point_def)

section \<open>Claims about the decoder\<close>

theorem readHeader_CorruptFormat_iff:
  "readHeader s = Inl CorruptFormat \<longleftrightarrow>
     32 \<le> length (input s) \<and> (take 4 (input s) \<noteq> ILDA_literal \<or> input s ! 4 \<noteq> 0)"
proof (cases "32 \<le> length (input s)")
  case False
  then show ?thesis by (simp add: readHeader_def read_def sizeof_ilda_header_def)
next
  case True
  then have "c_string (take 32 (input s)) = ILDA_literal \<longleftrightarrow>
     take 4 (take 32 (input s)) = ILDA_literal \<and> take 32 (input s) ! 4 = 0"
    by (intro c_string_magic) simp
  then show ?thesis using True
    by (simp add: readHeader_def read_def sizeof_ilda_header_def min_def)
qed

text \<open>
  C8. The claim: reading a header fails with \<open>CorruptFormat\<close> exactly when the four bytes of
  the magic tag differ from ``ILDA''; with the tag in place no \<open>CorruptFormat\<close> is raised,
  whatever the other header bytes are. The comparison \<open>string(header.ilda) !=
  string("ILDA")\<close> reads the unterminated \<open>char[4]\<close> as a C string, so it also fails when
  the first reserved byte after the tag is not zero (\<open>readHeader_CorruptFormat_iff\<close>):
  the header ``ILDA'', 1, 0, 0, \<dots> is rejected although its tag is the literal.
\<close>

theorem readHeader_reserved_byte:
  "readHeader (fresh_stream (make_header 1 0 0 1 0)) = Inl CorruptFormat \<and>
   hdr_ilda (make_header 1 0 0 1 0) = ILDA_literal"
  by (simp add: readHeader_def read_def sizeof_ilda_header_def fresh_stream_def make_header_def
        c_string_def ILDA_literal_def hdr_ilda_def)

text \<open>
  C2. The claim: for format code 1 (2D indexed) \<open>nextFrame\<close> consumes records of the 2D
  indexed layout (6 bytes, no z field) and the points have \<open>z = 0\<close>.
  \<open>frameFrom2dCoordinatesIndexed\<close> does that, but \<open>case FORMAT_2D_INDEXED\<close> calls
  \<open>frameFrom3dCoordinatesIndexed\<close>. On a block with one 6-byte record followed by the
  closing header, \<open>nextFrame\<close> takes 8 bytes (30 of the 38 bytes after the header are
  left): \<open>z\<close> is read from the record's status and colour bytes (1280), and status and
  colour index from the first two bytes of the next header. The unused 2D function, on the
  same record, gives \<open>z = 0\<close> and the colour of palette entry 5.
\<close>

theorem nextFrame_format_1_reads_3d_records:
  "map_sum id (\<lambda>(f, s). (f, length (input s))) (nextFrame (fresh_stream indexed_2d_bytes)) =
     Inr (Some \<lparr>projector = 0,
                points = [\<lparr>pt_x = 1, pt_y = 2, pt_z = 1280, pt_r = 0, pt_g = 0, pt_b = 0\<rparr>]\<rparr>,
          30) \<and>
   map_sum id (points \<circ> current_frame)
     (frameFrom2dCoordinatesIndexed
        ((fresh_stream [1, 0, 2, 0, 0, 5])\<lparr>header := make_header 0 1 0 1 0, number_of_records := 1\<rparr>)) =
     Inr [\<lparr>pt_x = 1, pt_y = 2, pt_z = 0, pt_r = 255, pt_g = 80, pt_b = 0\<rparr>]"
  by (simp add: nextFrame_def readHeader_def read_def sizeof_ilda_header_def fresh_stream_def
        indexed_2d_bytes_def make_header_def c_string_def ILDA_literal_def big_to_native_def
        hdr_number_of_records_def native_uint16_def hdr_format_def hdr_projector_id_def
        frameFrom3dCoordinatesIndexed_def frameFrom2dCoordinatesIndexed_def begin_frame_def
        lookup_palette_def point_3d_indexed_def point_2d_indexed_def indexed_point_def
        native_int16_def to_int16_def status_blanked_def push_back_def default_palette_def)

text \<open>
  C3. The claim: the call of \<open>nextFrame\<close> that consumes a palette block with a nonzero
  record count yields no frame. \<open>nextFrame\<close> ends with \<open>return &current_frame\<close> for
  every dispatched block, the palette block included: after an indexed 3D block with one
  point, the call that consumes the palette block yields that frame a second time.
\<close>

theorem palette_block_yields_frame_counterexample:
  "map_sum id fst (nextFrame (fresh_stream frame_then_palette_bytes)) =
     Inr (Some \<lparr>projector = 7,
                points = [\<lparr>pt_x = 1, pt_y = 2, pt_z = 3, pt_r = 255, pt_g = 16, pt_b = 0\<rparr>]\<rparr>) \<and>
   map_sum id fst
     (nextFrame (snd (projr (nextFrame (fresh_stream frame_then_palette_bytes))))) =
     Inr (Some \<lparr>projector = 7,
                points = [\<lparr>pt_x = 1, pt_y = 2, pt_z = 3, pt_r = 255, pt_g = 16, pt_b = 0\<rparr>]\<rparr>)"
proof -
  let ?F = "\<lparr>projector = 7,
             points = [\<lparr>pt_x = 1, pt_y = 2, pt_z = 3, pt_r = 255, pt_g = 16, pt_b = 0\<rparr>]\<rparr>"
  let ?s = "fresh_stream frame_then_palette_bytes"
  let ?s1 = "?s\<lparr>input := make_header 0 2 0 2 7 @ concat (map color_bytes scenario_palette) @ [],
               header := make_header 0 0 0 1 7, number_of_records := length [scenario_record],
               current_frame := ?F\<rparr>"
  have h1: "block_header (make_header 0 0 0 1 7) 0 (length [scenario_record]) 7"
    by (simp add: block_header_def make_header_def ILDA_literal_def)
  have h2: "block_header (make_header 0 2 0 2 7) 2 (length scenario_palette) 7"
    by (simp add: block_header_def make_header_def ILDA_literal_def scenario_palette_def)
  have len: "\<forall>c\<in>set [scenario_record]. length c = 8"
    by (simp add: scenario_record_def)
  have inp: "input ?s = make_header 0 0 0 1 7 @ concat [scenario_record] @
     (make_header 0 2 0 2 7 @ concat (map color_bytes scenario_palette) @ [])"
    by (simp only: fresh_stream_def frame_then_palette_bytes_def ILDAIStream.simps)
  have pt: "map (point_3d_indexed
              (case palettes ?s 7 of None \<Rightarrow> default_palette | Some pal \<Rightarrow> pal)) [scenario_record] =
            [\<lparr>pt_x = 1, pt_y = 2, pt_z = 3, pt_r = 255, pt_g = 16, pt_b = 0\<rparr>]"
    by (simp add: fresh_stream_def point_3d_indexed_def indexed_point_def scenario_record_def
          native_int16_def native_uint16_def to_int16_def status_blanked_def default_palette_def)
  have n1: "nextFrame ?s = Inr (Some ?F, ?s1)"
    using nextFrame_indexed_3d_block[OF h1 _ len inp] unfolding pt by simp
  have inp1: "input ?s1 = make_header 0 2 0 2 7 @ concat (map color_bytes scenario_palette) @ []"
    by simp
  have ne: "scenario_palette \<noteq> []" by (simp add: scenario_palette_def)
  have n2: "map_sum id fst (nextFrame ?s1) = Inr (Some ?F)"
    unfolding nextFrame_palette_block[OF h2 ne inp1] by simp
  show ?thesis
    unfolding n1 by (simp only: n2 sum.sel snd_conv fst_conv map_sum.simps id_apply simp_thms)
qed

text \<open>
  C3, amended: the call of \<open>nextFrame\<close> that consumes a palette block (format code 2,
  nonzero record count, all its records present) replaces the palette of the header's
  projector by exactly the block's entries, in order, and returns the decoder's current
  frame, which it leaves as it was; a frame decoded from the data that follows needs a
  further call.
\<close>

theorem palette_block_returns_current_frame:
  assumes "block_header h 2 (length cs) pid" "cs \<noteq> []"
    and "input s = h @ concat (map color_bytes cs) @ rest"
  shows "nextFrame s =
           Inr (Some (current_frame s),
                s\<lparr>input := rest, header := h, number_of_records := length cs,
                   palettes := (palettes s)(pid \<mapsto> cs)\<rparr>)"
  using assms by (rule nextFrame_palette_block)

theorem palette_block_returns_current_frame_witness:
  "nextFrame (fresh_stream scenario_bytes) =
     Inr (Some (current_frame (fresh_stream scenario_bytes)),
          (fresh_stream scenario_bytes)\<lparr>input := make_header 0 0 0 1 7 @ concat [scenario_record] @ [],
             header := make_header 0 2 0 2 7, number_of_records := length scenario_palette,
             palettes := (palettes (fresh_stream scenario_bytes))(7 \<mapsto> scenario_palette)\<rparr>)"
proof -
  have h1: "block_header (make_header 0 2 0 2 7) 2 (length scenario_palette) 7"
    by (simp add: block_header_def make_header_def ILDA_literal_def scenario_palette_def)
  have ne: "scenario_palette \<noteq> []"
    by (simp_all add: scenario_palette_def)
  have inp: "input (fresh_stream scenario_bytes) =
      make_header 0 2 0 2 7 @ concat (map color_bytes scenario_palette) @
      (make_header 0 0 0 1 7 @ concat [scenario_record] @ [])"
    by (simp only: fresh_stream_def scenario_bytes_def ILDAIStream.simps)
  show ?thesis
    by (rule palette_block_returns_current_frame[OF h1 ne inp])
qed

text \<open>
  A palette block for projector \<open>pid\<close> with the entries \<open>cs\<close> replaces whatever palette
  \<open>pid\<close> had; in an indexed 3D block for \<open>pid\<close> that follows, every record that is not
  blanked and whose colour index is within \<open>cs\<close> gets the colour of that entry of \<open>cs\<close>.
  The instance below is the scenario of the specification: entries (255,0,0) and (0,255,0)
  for projector 7, then one record with colour index 1, decoded to one point coloured
  (0,255,0).
\<close>

theorem palette_load_then_indexed_block:
  assumes "block_header h1 2 (length cs) pid" "cs \<noteq> []"
    and "block_header h2 0 (length recs) pid" "recs \<noteq> []" "\<forall>c\<in>set recs. length c = 8"
    and "input s = h1 @ concat (map color_bytes cs) @ h2 @ concat recs @ rest"
  shows "\<exists>f1 s1 s2 ps.
           nextFrame s = Inr (f1, s1) \<and> palettes s1 pid = Some cs \<and>
           nextFrame s1 = Inr (Some \<lparr>projector = pid, points = ps\<rparr>, s2) \<and>
           length ps = length recs \<and>
           (\<forall>k<length recs.
              unat (recs ! k ! 7) < length cs \<and> \<not> status_blanked (recs ! k ! 6) \<longrightarrow>
                pt_r (ps ! k) = unat (col_r (cs ! unat (recs ! k ! 7))) \<and>
                pt_g (ps ! k) = unat (col_g (cs ! unat (recs ! k ! 7))) \<and>
                pt_b (ps ! k) = unat (col_b (cs ! unat (recs ! k ! 7))))"
proof -
  let ?s1 = "s\<lparr>input := h2 @ concat recs @ rest, header := h1, number_of_records := length cs,
                palettes := (palettes s)(pid \<mapsto> cs)\<rparr>"
  let ?ps = "map (point_3d_indexed cs) recs"
  have n1: "nextFrame s = Inr (Some (current_frame s), ?s1)"
    using nextFrame_palette_block[OF assms(1,2,6)] .
  have "nextFrame ?s1 =
           Inr (Some \<lparr>projector = pid,
                      points = map (point_3d_indexed
                        (case palettes ?s1 pid of None \<Rightarrow> default_palette | Some pal \<Rightarrow> pal)) recs\<rparr>,
                ?s1\<lparr>input := rest, header := h2, number_of_records := length recs,
                   current_frame := \<lparr>projector = pid,
                      points = map (point_3d_indexed
                        (case palettes ?s1 pid of None \<Rightarrow> default_palette | Some pal \<Rightarrow> pal)) recs\<rparr>\<rparr>)"
    using assms(3,4,5) by (intro nextFrame_indexed_3d_block) simp_all
  then have n2: "\<exists>s2. nextFrame ?s1 = Inr (Some \<lparr>projector = pid, points = ?ps\<rparr>, s2)"
    by simp
  have col: "\<forall>k<length recs.
              unat (recs ! k ! 7) < length cs \<and> \<not> status_blanked (recs ! k ! 6) \<longrightarrow>
                pt_r (?ps ! k) = unat (col_r (cs ! unat (recs ! k ! 7))) \<and>
                pt_g (?ps ! k) = unat (col_g (cs ! unat (recs ! k ! 7))) \<and>
                pt_b (?ps ! k) = unat (col_b (cs ! unat (recs ! k ! 7)))"
    by (simp add: point_3d_indexed_def indexed_point_colour)
  from n2 obtain s2 where "nextFrame ?s1 = Inr (Some \<lparr>projector = pid, points = ?ps\<rparr>, s2)" ..
  with n1 col show ?thesis
    by (intro exI[of _ "Some (current_frame s)"] exI[of _ ?s1] exI[of _ s2] exI[of _ ?ps]) simp
qed

theorem palette_load_then_indexed_block_scenario:
  "\<exists>f1 s1 s2 ps.
     nextFrame (fresh_stream scenario_bytes) = Inr (f1, s1) \<and>
     palettes s1 7 = Some scenario_palette \<and>
     nextFrame s1 = Inr (Some \<lparr>projector = 7, points = ps\<rparr>, s2) \<and>
     length ps = 1 \<and> pt_r (ps ! 0) = 0 \<and> pt_g (ps ! 0) = 255 \<and> pt_b (ps ! 0) = 0"
proof -
  have h1: "block_header (make_header 0 2 0 2 7) 2 (length scenario_palette) 7"
    by (simp add: block_header_def make_header_def ILDA_literal_def scenario_palette_def)
  have h2: "block_header (make_header 0 0 0 1 7) 0 (length [scenario_record]) 7"
    by (simp add: block_header_def make_header_def ILDA_literal_def)
  have ne: "scenario_palette \<noteq> []" "[scenario_record] \<noteq> []"
    by (simp_all add: scenario_palette_def)
  have len: "\<forall>c\<in>set [scenario_record]. length c = 8"
    by (simp add: scenario_record_def)
  have inp: "input (fresh_stream scenario_bytes) =
      make_header 0 2 0 2 7 @ concat (map color_bytes scenario_palette) @
      make_header 0 0 0 1 7 @ concat [scenario_record] @ []"
    by (simp only: fresh_stream_def scenario_bytes_def ILDAIStream.simps)
  show ?thesis
    using palette_load_then_indexed_block[OF h1 ne(1) h2 ne(2) len inp]
    by (simp add: scenario_record_def scenario_palette_def status_blanked_def)
qed

section \<open>The encoder, loop by loop\<close>

lemma bindE_eq_Inr: "bindE m f = Inr v \<longleftrightarrow> (\<exists>a. m = Inr a \<and> f a = Inr v)"
  by (cases m) simp_all

lemma if_Inl_eq_Inr: "(if c then Inl e else m) = Inr v \<longleftrightarrow> \<not> c \<and> m = Inr v"
  by simp

lemma chk_eq_Inr: "chk v = Inr a \<longleftrightarrow> a = v \<and> INT_MIN \<le> v \<and> v \<le> INT_MAX"
  by (auto simp: chk_def)

lemma for_loop_invariant:
  assumes "for_loop xs body s = Inr s'" "I s"
    and "\<And>x s s'. x \<in> set xs \<Longrightarrow> I s \<Longrightarrow> body x s = Inr s' \<Longrightarrow> I s'"
  shows "I s'"
  using assms
proof (induction xs arbitrary: s)
  case Nil
  then show ?case by simp
next
  case (Cons x xs)
  from Cons.prems(1) obtain s1 where s1: "body x s = Inr s1" "for_loop xs body s1 = Inr s'"
    by (auto simp: bindE_eq_Inr)
  have "I s1" by (rule Cons.prems(3)[of x s]) (simp_all add: Cons.prems(2) s1(1))
  moreover have "\<And>y t t'. y \<in> set xs \<Longrightarrow> I t \<Longrightarrow> body y t = Inr t' \<Longrightarrow> I t'"
    using Cons.prems(3) by (meson list.set_intros(2))
  ultimately show ?case using Cons.IH[OF s1(2)] by blast
qed

lemma within_frame_refl: "within_frame st st"
  by (simp add: within_frame_def)

lemma within_frame_trans: "within_frame a b \<Longrightarrow> within_frame b c \<Longrightarrow> within_frame a c"
  by (auto simp: within_frame_def)

lemma for_loop_within_frame:
  assumes "for_loop xs body st = Inr st'"
    and "\<And>x s s'. x \<in> set xs \<Longrightarrow> body x s = Inr s' \<Longrightarrow> within_frame s s'"
  shows "within_frame st st'"
proof -
  have "within_frame st st'"
  proof (rule for_loop_invariant[where I = "within_frame st", OF assms(1)])
    show "within_frame st st" by (rule within_frame_refl)
  next
    fix x s s' assume "x \<in> set xs" "within_frame st s" "body x s = Inr s'"
    then show "within_frame st s'" using assms(2) within_frame_trans by blast
  qed
  then show ?thesis .
qed

lemma store_sample_within_frame: "store_sample v st = Inr st' \<Longrightarrow> within_frame st st'"
  by (auto simp: store_sample_def within_frame_def split: if_splits)

lemma emit_signals_within_frame: "emit_signals w v st = Inr st' \<Longrightarrow> within_frame st st'"
  unfolding emit_signals_def
  by (erule for_loop_within_frame) (auto simp: bindE_eq_Inr dest: store_sample_within_frame)

lemma emit_point_within_frame:
  assumes "emit_point w c dx dy dz k p st = Inr st'"
  shows "within_frame st st'"
proof -
  from assms obtain v n st1 m where
    loop: "for_loop [0..<nat n] (\<lambda>q. emit_signals w v) st = Inr st1"
    and st': "st' = st1\<lparr>point_number := m\<rparr>"
    by (auto simp: emit_point_def bindE_eq_Inr)
  have "within_frame st st1"
    using loop by (rule for_loop_within_frame) (rule emit_signals_within_frame)
  then show ?thesis by (auto simp: st' within_frame_def)
qed

lemma emit_location_within_frame:
  assumes "emit_location w frame pc lc i st = Inr st'"
  shows "within_frame st st'"
proof -
  from assms obtain k where k: "groupSizeOfNthGroup pc lc (int i) = Inr k"
    by (auto simp: emit_location_def bindE_eq_Inr)
  show ?thesis
  proof (cases "k = 0")
    case True
    then show ?thesis using assms k by (simp add: emit_location_def within_frame_refl)
  next
    case False
    with assms k obtain c dx dy dz st1 x y z where
      loop: "for_loop [1..<nat k + 1] (emit_point w c dx dy dz k) st = Inr st1"
      and st': "st' = st1\<lparr>last_x := x, last_y := y, last_z := z\<rparr>"
      by (auto simp: emit_location_def Let_def bindE_eq_Inr)
    have "within_frame st st1"
      using loop by (rule for_loop_within_frame) (rule emit_point_within_frame)
    then show ?thesis by (auto simp: st' within_frame_def)
  qed
qed

lemma to_int32_double:
  assumes "0 \<le> n" "n \<le> INT_MAX" "0 \<le> to_int32 (n * 2)"
  shows "to_int32 (n * 2) = n * 2"
proof -
  have "n * 2 < 2147483648"
  proof (rule ccontr)
    assume "\<not> n * 2 < 2147483648"
    then have "2147483648 \<le> n * 2" "n * 2 < 4294967296"
      using assms(2) by (simp_all add: INT_MAX_def)
    then have "(n * 2 + 2147483648) mod 4294967296 = n * 2 - 2147483648"
      by (intro int_mod_pos_eq[where q = 1]) simp_all
    then have "to_int32 (n * 2) < 0"
      using \<open>n * 2 < 4294967296\<close> by (simp add: to_int32_def)
    with assms(3) show False by simp
  qed
  then have "(n * 2 + 2147483648) mod 4294967296 = n * 2 + 2147483648"
    using assms(1) by (intro mod_pos_pos_trivial) simp_all
  then show ?thesis by (simp add: to_int32_def)
qed

lemma length_sample_bytes: "length (concat (map sample_bytes xs)) = 2 * length xs"
  by (induction xs) (simp_all add: sample_bytes_def le16_def)

lemma emit_frame_between_frames:
  assumes "emit_frame w frame st0 = Inr st'" "between_frames hb st0"
  shows "between_frames hb st'"
proof -
  let ?st = "st0\<lparr>sample_number := 0\<rparr>"
  from assms(1) obtain fis :: int and pc st2 total n where
    loop: "for_loop [0..<nat (to_int32 (int (length (points frame))))]
                 (emit_location w frame pc (to_int32 (int (length (points frame)))))
                 (if fis = 0 then ?st\<lparr>point_number := 0\<rparr> else ?st) = Inr st2"
    and nonneg: "\<not> to_int32 (sample_number st2 * 2) < 0"
    and total: "c_add (total_bytes st2) (to_int32 (sample_number st2 * 2)) = Inr total"
    and st': "st' = st2\<lparr>output_stream := os_write (take (nat (to_int32 (sample_number st2 * 2)))
                                        (concat (map sample_bytes (frame_data st2)))) (output_stream st2),
                   total_bytes := total, frame_number := n\<rparr>"
    by (auto simp: emit_frame_def Let_def bindE_eq_Inr if_Inl_eq_Inr)
  define st1 where "st1 = (if fis = 0 then ?st\<lparr>point_number := 0\<rparr> else ?st)"
  have wf: "within_frame st1 st2"
    using loop unfolding st1_def[symmetric]
    by (rule for_loop_within_frame) (rule emit_location_within_frame)
  have fd: "int (length (frame_data st0)) \<le> INT_MAX"
    using assms(2) by (simp add: between_frames_def)
  from assms(2) obtain d where d: "contents (output_stream st0) = hb @ d"
    "put_pos (output_stream st0) = length hb + length d" "total_bytes st0 = int (length d)"
    by (auto simp: between_frames_def)
  have same: "output_stream st2 = output_stream st0" "total_bytes st2 = total_bytes st0"
    "length (frame_data st2) = length (frame_data st0)"
    and sn: "0 \<le> sample_number st2" "sample_number st2 \<le> int (length (frame_data st2))"
    using wf by (auto simp: within_frame_def st1_def split: if_splits)
  have b: "to_int32 (sample_number st2 * 2) = sample_number st2 * 2"
    using sn fd nonneg same(3) by (intro to_int32_double) simp_all
  define wr where "wr = take (nat (sample_number st2 * 2)) (concat (map sample_bytes (frame_data st2)))"
  have lw: "int (length wr) = sample_number st2 * 2"
    using sn by (simp add: wr_def length_sample_bytes)
  have tot: "total = int (length (d @ wr))"
    using total by (simp add: c_add_def chk_eq_Inr b same d lw)
  have "contents (os_write wr (output_stream st0)) = hb @ (d @ wr)"
    "put_pos (os_write wr (output_stream st0)) = length hb + length (d @ wr)"
    by (simp_all add: os_write_def d)
  then show ?thesis
    unfolding between_frames_def st' b wr_def[symmetric] same
    using fd tot same(3) by auto
qed

lemma unat_byte_of_nat: "unat (of_nat n :: byte) = n mod 256"
  by (simp add: unat_of_nat)

lemma le32_digits:
  fixes v :: nat
  assumes "v < 4294967296"
  shows "v mod 256 + 256 * (v div 256 mod 256) + 65536 * (v div 65536 mod 256) +
         16777216 * (v div 16777216 mod 256) = v"
proof -
  have "v div (256 * 256) = v div 256 div 256" by (rule div_mult2_eq)
  then have d2: "v div 65536 = v div 256 div 256" by simp
  have "v div (65536 * 256) = v div 65536 div 256" by (rule div_mult2_eq)
  then have d3: "v div 16777216 = v div 65536 div 256" by simp
  have a: "v div 16777216 mod 256 = v div 16777216" using assms by simp
  have e1: "v = 256 * (v div 256) + v mod 256" by simp
  have e2: "v div 256 = 256 * (v div 256 div 256) + v div 256 mod 256" by simp
  have e3: "v div 65536 = 256 * (v div 65536 div 256) + v div 65536 mod 256" by simp
  show ?thesis using a e1 e2 e3 d2 d3 by linarith
qed

lemma read_le32_le32:
  assumes "v < 4294967296" "length xs = off"
  shows "read_le32 (xs @ le32 v @ ys) off = v"
proof -
  have "read_le32 (xs @ le32 v @ ys) off =
     v mod 256 + 256 * (v div 256 mod 256) + 65536 * (v div 65536 mod 256) +
         16777216 * (v div 16777216 mod 256)"
    using assms(2) by (simp add: read_le32_def le32_def nth_append unat_byte_of_nat)
  with le32_digits[OF assms(1)] show ?thesis by (simp only:)
qed

lemma length_le32 [simp]: "length (le32 v) = 4"
  by (simp add: le32_def)

lemma length_le16 [simp]: "length (le16 v) = 2"
  by (simp add: le16_def)

lemma length_header_bytes [simp]: "length (header_bytes h) = 44"
  by (simp add: header_bytes_def)

lemma declared_data_length_header:
  assumes "wav_data_size h < 4294967296"
  shows "declared_data_length (header_bytes h @ d) = wav_data_size h"
proof -
  have "header_bytes h @ d =
     ([82, 73, 70, 70] @ le32 (wav_chunk_size h) @ [87, 65, 86, 69] @
     [102, 109, 116, 32] @ le32 (wav_fmt_chunk_size h) @ le16 (wav_audio_format h) @
     le16 (wav_channels h) @ le32 (wav_rate h) @ le32 (wav_bytes_per_second h) @
     le16 (wav_bytes_per_block h) @ le16 (wav_bits_per_sample h) @
     [100, 97, 116, 97]) @ le32 (wav_data_size h) @ d"
    by (simp add: header_bytes_def)
  then show ?thesis
    unfolding declared_data_length_def using assms
    by (simp only: read_le32_le32 length_append length_le32 length_le16 list.size)
qed

lemma declared_chunk_size_header:
  assumes "wav_chunk_size h < 4294967296"
  shows "declared_chunk_size (header_bytes h @ d) = wav_chunk_size h"
  unfolding declared_chunk_size_def header_bytes_def append_assoc
  by (rule read_le32_le32) (simp_all add: assms)

lemma update_sizes:
  assumes "update n h = Inr h'" "0 \<le> n"
  shows "wav_data_size h' = nat n" "wav_chunk_size h' = nat n + 36" "nat n + 36 < 4294967296"
proof -
  from assms(1) have c: "n + 36 \<le> INT_MAX"
    and h': "wav_data_size h' = to_uint32 n" "wav_chunk_size h' = to_uint32 (n + 36)"
    by (auto simp: update_def bindE_eq_Inr c_add_def chk_eq_Inr)
  have "n mod 4294967296 = n" "(n + 36) mod 4294967296 = n + 36"
    using c assms(2) by (simp_all add: INT_MAX_def)
  then show "wav_data_size h' = nat n" "wav_chunk_size h' = nat n + 36"
    using assms(2) by (simp_all add: h' to_uint32_def nat_add_distrib)
  show "nat n + 36 < 4294967296" using c assms(2) by (simp add: INT_MAX_def)
qed

lemma run_contents:
  assumes "run w frames empty_ostream = Inr os'"
  shows "\<exists>h d. contents os' = header_bytes h @ d \<and> wav_data_size h = length d \<and>
               wav_chunk_size h = length d + 36 \<and> length d + 36 < 4294967296"
proof -
  from assms obtain header1 buffer_size st header2 where
    bs: "c_mul (rate w) (to_int32 (int (length (signals w)))) = Inr buffer_size" "\<not> buffer_size < 0"
    and loop: "for_loop frames (emit_frame w)
                 (initial_state (nat buffer_size)
                    (os_write (header_bytes (littleEndian header1)) empty_ostream)) = Inr st"
    and h2: "update (total_bytes st) header1 = Inr header2"
    and os': "os' = os_write (header_bytes (littleEndian header2)) (seekp 0 (output_stream st))"
    by (auto simp: run_def Let_def bindE_eq_Inr if_Inl_eq_Inr)
  let ?hb = "header_bytes header1"
  have "buffer_size \<le> INT_MAX" using bs(1) by (simp add: c_mul_def chk_eq_Inr)
  then have init: "between_frames ?hb (initial_state (nat buffer_size)
                    (os_write (header_bytes (littleEndian header1)) empty_ostream))"
    using bs(2)
    by (simp add: between_frames_def initial_state_def os_write_def empty_ostream_def
          littleEndian_def)
  have "between_frames ?hb st"
    using loop init by (rule for_loop_invariant) (rule emit_frame_between_frames)
  then obtain d where d: "contents (output_stream st) = ?hb @ d"
    "total_bytes st = int (length d)"
    by (auto simp: between_frames_def)
  have c: "contents os' = header_bytes header2 @ d"
    by (simp add: os' os_write_def seekp_def d littleEndian_def)
  have "0 \<le> total_bytes st" using d by simp
  from update_sizes[OF h2 this] c d show ?thesis by auto
qed

lemmas arith_defs = c_div_def c_mod_def c_mul_def c_add_def chk_def
        INT_MAX_def INT_MIN_def signed_divide_int_def signed_modulo_int_def to_int16_def to_int32_def
        to_uint16_def to_uint32_def

lemmas encoder_defs = run_def update_def littleEndian_def header_bytes_def le16_def le32_def
  os_write_def seekp_def sample_bytes_def initial_state_def empty_ostream_def emit_frame_def
  emit_location_def emit_point_def emit_signals_def store_sample_def signal_value_def
  compute_sub_sample_def scale_color_def interpolate_def groupSizeOfNthGroup_def

lemma run_far_frames:
  "run far_params far_frames empty_ostream =
     Inr far_output"
  by (simp add: far_output_def far_params_def far_frames_def red_point_def encoder_defs arith_defs Let_def upt_rec
        numeral_2_eq_2)






section \<open>What each location writes\<close>













lemma groupSizeOfNthGroup_lower:
  assumes "groupSizeOfNthGroup T G i = Inr v" "0 < G" "0 \<le> T"
  shows "T div G \<le> v" "T div G \<le> INT_MAX"
proof -
  from assms(1) obtain base where b: "c_div T G = Inr base" and v: "v = base \<or> v = base + 1"
    by (auto simp: groupSizeOfNthGroup_def bindE_eq_Inr c_add_def chk_eq_Inr split: if_splits)
  have "base = T div G" "base \<le> INT_MAX"
    using b assms(2,3) by (auto simp: c_div_def chk_eq_Inr sdiv_nonneg)
  then show "T div G \<le> v" "T div G \<le> INT_MAX" using v by auto
qed










section \<open>Claims about the encoder\<close>

text \<open>
  C9. For every frame sequence that \<open>run\<close> encodes into an initially empty file, the
  file holds at least the 44 header bytes, the data length declared at offset 40 of the
  rewritten header is the number of bytes that follow the header, and the total chunk
  size declared at offset 4 is that data length plus 36.
\<close>

theorem header_declares_written_bytes:
  assumes "run w frames empty_ostream = Inr os'"
  shows "44 \<le> length (contents os') \<and>
         declared_data_length (contents os') = length (contents os') - 44 \<and>
         declared_chunk_size (contents os') = declared_data_length (contents os') + 36"
proof -
  from run_contents[OF assms] obtain h d where
    c: "contents os' = header_bytes h @ d" and s: "wav_data_size h = length d"
    "wav_chunk_size h = length d + 36" "length d + 36 < 4294967296"
    by blast
  have "declared_data_length (contents os') = length d"
    unfolding c using s by (simp add: declared_data_length_header)
  moreover have "declared_chunk_size (contents os') = length d + 36"
    unfolding c using s by (simp add: declared_chunk_size_header)
  ultimately show ?thesis by (simp add: c)
qed

theorem header_declares_written_bytes_witness:
  "run far_params far_frames empty_ostream = Inr far_output \<and>
   declared_data_length (contents far_output) = 8 \<and>
   declared_chunk_size (contents far_output) = 44"
  using header_declares_written_bytes[OF run_far_frames] run_far_frames
  by (simp add: far_output_def)




section \<open>Interpolation and colour scaling\<close>

lemma to_int16_id: "- 32768 \<le> v \<Longrightarrow> v \<le> 32767 \<Longrightarrow> to_int16 v = v"
  by (simp add: to_int16_def)

lemma scale_color_value:
  assumes "c \<le> 255"
  shows "scale_color c = Inr (int c * 128)"
proof -
  have d: "c_div 32767 255 = Inr 128"
    by (simp add: arith_defs)
  have "int c * 128 \<le> 32640" using assms by simp
  then have m: "c_mul (int c) 128 = Inr (int c * 128)" "to_int16 (int c * 128) = int c * 128"
    by (simp_all add: c_mul_def chk_def INT_MIN_def INT_MAX_def to_int16_id)
  show ?thesis by (simp add: scale_color_def d m)
qed

lemma sdiv_scaled_nonneg:
  fixes d p k :: int
  assumes "0 \<le> d" "1 \<le> p" "p \<le> k"
  shows "0 \<le> (d * p) sdiv k" "(d * p) sdiv k \<le> d"
proof -
  have k: "0 < k" using assms by simp
  have m: "0 \<le> d * p" using assms by simp
  have eq: "(d * p) sdiv k = (d * p) div k" using m k by (rule sdiv_nonneg)
  show "0 \<le> (d * p) sdiv k" unfolding eq using m k by (simp add: pos_imp_zdiv_nonneg_iff)
  have "d * p \<le> d * k" using assms by (intro mult_left_mono) simp_all
  then have "(d * p) div k \<le> (d * k) div k" using k by (intro zdiv_mono1) simp_all
  then show "(d * p) sdiv k \<le> d" unfolding eq using k by simp
qed

lemma sdiv_minus_left: "(- a) sdiv b = - (a sdiv (b::int))"
  by (simp add: signed_divide_int_def)

lemma sdiv_scaled_nonpos:
  fixes d p k :: int
  assumes "d \<le> 0" "1 \<le> p" "p \<le> k"
  shows "d \<le> (d * p) sdiv k" "(d * p) sdiv k \<le> 0"
proof -
  have "0 \<le> - d" using assms by simp
  from sdiv_scaled_nonneg[OF this assms(2,3)]
  have "0 \<le> (- (d * p)) sdiv k" "(- (d * p)) sdiv k \<le> - d" by simp_all
  then show "d \<le> (d * p) sdiv k" "(d * p) sdiv k \<le> 0"
    by (simp_all add: sdiv_minus_left)
qed

theorem interpolate_in_range:
  assumes l: "- 32768 \<le> l" "l \<le> 32767" and c: "- 32768 \<le> cur" "cur \<le> 32767"
    and d: "- 32768 \<le> cur - l" "cur - l \<le> 32767"
    and p: "1 \<le> p" "p \<le> k" "k \<le> 65535"
  shows "interpolate l (to_int16 (cur - l)) p k = Inr (spec_interpolate l cur p k)"
proof -
  define dd where "dd = cur - l"
  define q where "q = (dd * p) sdiv k"
  have t: "to_int16 dd = dd" using d by (simp add: dd_def to_int16_id)
  have p': "0 \<le> p" "p \<le> 65535" using p by simp_all
  have "dd * p \<le> 32767 * 65535"
  proof (cases "0 \<le> dd")
    case True
    then show ?thesis using d p' by (intro mult_mono) (simp_all add: dd_def)
  next
    case False
    then have "dd * p \<le> 0" using p' by (simp add: mult_le_0_iff)
    then show ?thesis by simp
  qed
  moreover have "- (32768 * 65535) \<le> dd * p"
  proof -
    have "(- dd) * p \<le> 32768 * 65535"
    proof (cases "0 \<le> - dd")
      case True
      then show ?thesis using d p' by (intro mult_mono) (simp_all add: dd_def)
    next
      case False
      then have "(- dd) * p \<le> 0" using p' by (simp add: mult_le_0_iff)
      then show ?thesis by simp
    qed
    then show ?thesis by simp
  qed
  ultimately have m: "c_mul dd p = Inr (dd * p)"
    by (simp add: c_mul_def chk_def INT_MIN_def INT_MAX_def)
  have qb: "(0 \<le> q \<and> q \<le> dd) \<or> (dd \<le> q \<and> q \<le> 0)"
  proof (cases "0 \<le> dd")
    case True
    then show ?thesis using sdiv_scaled_nonneg[OF True p(1,2)] by (simp add: q_def)
  next
    case False
    then have "dd \<le> 0" by simp
    then show ?thesis using sdiv_scaled_nonpos[OF _ p(1,2)] by (simp add: q_def)
  qed
  have k0: "k \<noteq> 0" using p by simp
  have qr: "INT_MIN \<le> q" "q \<le> INT_MAX"
    using qb d by (auto simp: INT_MIN_def INT_MAX_def dd_def)
  have dv: "c_div (dd * p) k = Inr q"
    unfolding c_div_def q_def[symmetric] using k0 qr by (simp add: chk_def)
  have s: "- 32768 \<le> l + q" "l + q \<le> 32767"
    using qb l c by (auto simp: dd_def)
  then have a: "c_add l q = Inr (l + q)" "to_int16 (l + q) = l + q"
    by (simp_all add: c_add_def chk_def INT_MIN_def INT_MAX_def to_int16_id)
  show ?thesis
    unfolding interpolate_def dd_def[symmetric] t spec_interpolate_def q_def[symmetric]
    by (simp add: m dv a)
qed

theorem interpolation_scenario:
  "interpolate 0 (to_int16 (100 - 0)) 5 10 = Inr 50 \<and>
   interpolate 0 (to_int16 (100 - 0)) 10 10 = Inr 100"
  by (simp add: interpolate_def arith_defs)

theorem emit_location_last_position:
  assumes "emit_location w frame point_count location_count i st = Inr st'"
    and "groupSizeOfNthGroup point_count location_count (int i) \<noteq> Inr 0"
  shows "last_x st' = (if CHR ''x'' \<in> set (invert w) then to_int16 (pt_x (points frame ! i) * - 1)
                       else pt_x (points frame ! i))"
    and "last_y st' = (if CHR ''y'' \<in> set (invert w) then to_int16 (pt_y (points frame ! i) * - 1)
                       else pt_y (points frame ! i))"
    and "last_z st' = (if CHR ''z'' \<in> set (invert w) then to_int16 (pt_z (points frame ! i) * - 1)
                       else pt_z (points frame ! i))"
  using assms by (auto simp: emit_location_def Let_def bindE_eq_Inr split: if_splits)

text \<open>
  C5. The claim: every colour channel of a sub-sample is \<open>channel_value * 32767 / 255\<close>,
  so that 255 becomes 32767. The code multiplies by the quotient
  \<open>(numeric_limits<int16_t>::max() / numeric_limits<uint8_t>::max())\<close>, which is 128:
  the channel value 255 becomes 32640.
\<close>

theorem colour_scale_counterexample:
  "map_sum id ir (compute_sub_sample (red_point 100) (initial_state 0 empty_ostream) 100 0 0 1 1)
     = Inr 32640 \<and> spec_scale 255 = 32767"
  by (simp add: red_point_def encoder_defs arith_defs spec_scale_def)

text \<open>
  C5, amended: for every sub-sample, each colour channel (red, green, blue) with an 8-bit
  value is that value times 128 (the integer quotient of 32767 by 255); 255 becomes 32640.
\<close>

theorem colour_channels_scaled_by_128:
  assumes "compute_sub_sample coordinate st dx dy dz p k = Inr v"
    and "pt_r coordinate \<le> 255" "pt_g coordinate \<le> 255" "pt_b coordinate \<le> 255"
  shows "ir v = int (pt_r coordinate) * 128 \<and> ig v = int (pt_g coordinate) * 128 \<and>
         ib v = int (pt_b coordinate) * 128"
  using assms(1)
  by (auto simp: compute_sub_sample_def bindE_eq_Inr scale_color_value[OF assms(2)]
        scale_color_value[OF assms(3)] scale_color_value[OF assms(4)])

theorem colour_channels_scaled_by_128_witness:
  "\<exists>v. compute_sub_sample (red_point 100) (initial_state 0 empty_ostream) 100 0 0 1 1 = Inr v \<and>
       ir v = 255 * 128 \<and> ig v = 0 \<and> ib v = 0"
proof -
  have e: "compute_sub_sample (red_point 100) (initial_state 0 empty_ostream) 100 0 0 1 1 =
      Inr \<lparr>ix = 100, iy = 0, iz = 0, il = 32767, ir = 32640, ig = 0, ib = 0\<rparr>"
    by (simp add: red_point_def encoder_defs arith_defs)
  show ?thesis
    using colour_channels_scaled_by_128[OF e] e by (simp add: red_point_def)
qed

text \<open>
  C6. The claim: at sub-step \<open>p\<close> of \<open>k\<close> the position is
  \<open>last + (current - last) * p / k\<close>, truncated. The code keeps the difference in an
  \<open>int16_t\<close> (\<open>int16_t dx = x - last_x\<close>), so a step of more than 32767 wraps around:
  from \<open>x = -20000\<close> to \<open>x = 20000\<close> in two sub-steps the first emitted position is
  \<open>-32768\<close>, where the formula gives 0. Below, the samples of that run. For steps that
  fit an \<open>int16_t\<close> the code computes the formula (\<open>interpolate_in_range\<close>, with the
  scenario of the specification in \<open>interpolation_scenario\<close>), and the last position
  becomes the point's own, possibly inverted, coordinates
  (\<open>emit_location_last_position\<close>).
\<close>

theorem far_jump_interpolation:
  "map_sum id (drop 44 \<circ> contents) (run far_params far_frames empty_ostream) =
     Inr (concat (map sample_bytes [- 10000, - 20000, - 32768, 20000])) \<and>
   spec_interpolate (- 20000) 20000 1 2 = 0"
  using run_far_frames
  by (simp add: far_output_def sample_bytes_def le16_def to_uint16_def spec_interpolate_def
        signed_divide_int_def)

section \<open>Palettes and the indexed records that follow\<close>

text \<open>A call of \<open>nextFrame\<close> changes the palette of a projector only when it consumes a
  palette block for that projector.\<close>

lemma read_keeps:
  "read n s = Inr (c, s1) \<Longrightarrow> palettes s1 = palettes s \<and> header s1 = header s"
  by (auto simp: read_def split: if_splits)

lemma frame_loop_keeps:
  assumes "for_loop xs (\<lambda>i s. bindE (read n s) (\<lambda>(c, s1). Inr (push_back (g c) s1))) s = Inr s'"
  shows "palettes s' = palettes s \<and> header s' = header s"
proof (rule for_loop_invariant[where I = "\<lambda>t. palettes t = palettes s \<and> header t = header s",
      OF assms])
  show "palettes s = palettes s \<and> header s = header s" by simp
next
  fix x t t'
  assume "palettes t = palettes s \<and> header t = header s"
    and "bindE (read n t) (\<lambda>(c, s1). Inr (push_back (g c) s1)) = Inr t'"
  then show "palettes t' = palettes s \<and> header t' = header s"
    by (auto simp: bindE_eq_Inr push_back_def dest: read_keeps)
qed

lemma palette_loop_keeps:
  assumes "for_loop xs (\<lambda>i s. bindE (read 3 s) (\<lambda>(c, s1).
              set_palette_entry i (ILDAColor (c ! 0) (c ! 1) (c ! 2)) s1)) s = Inr s'"
    and "hdr_projector_id (header s) \<noteq> pid"
  shows "palettes s' pid = palettes s pid \<and> header s' = header s"
proof (rule for_loop_invariant[where I = "\<lambda>t. palettes t pid = palettes s pid \<and> header t = header s",
      OF assms(1)])
  show "palettes s pid = palettes s pid \<and> header s = header s" by simp
next
  fix x t t'
  assume "palettes t pid = palettes s pid \<and> header t = header s"
    and "bindE (read 3 t) (\<lambda>(c, s1).
              set_palette_entry x (ILDAColor (c ! 0) (c ! 1) (c ! 2)) s1) = Inr t'"
  then show "palettes t' pid = palettes s pid \<and> header t' = header s"
    using assms(2)
    by (auto simp: bindE_eq_Inr set_palette_entry_def split: option.splits if_splits
          dest!: read_keeps)
qed

theorem nextFrame_keeps_palette:
  assumes "nextFrame s = Inr (f, s')"
    and "hdr_format (header s') = 2 \<longrightarrow> hdr_projector_id (header s') \<noteq> pid"
  shows "palettes s' pid = palettes s pid"
proof -
  from assms(1) obtain s1 where rh: "readHeader s = Inr s1"
    by (auto simp: nextFrame_def bindE_eq_Inr)
  have p1: "palettes s1 = palettes s"
    using rh by (auto simp: readHeader_def bindE_eq_Inr read_def split: if_splits)
  show ?thesis
  proof (cases "number_of_records s1 = 0")
    case True
    then show ?thesis using assms(1) rh p1 by (simp add: nextFrame_def)
  next
    case False
    with assms(1) rh obtain s2 where
      d: "(if hdr_format (header s1) = 0 then frameFrom3dCoordinatesIndexed s1
            else if hdr_format (header s1) = 1 then frameFrom3dCoordinatesIndexed s1
            else if hdr_format (header s1) = 2 then setColorPalette s1
            else if hdr_format (header s1) = 4 then frameFrom3dCoordinatesTrue s1
            else if hdr_format (header s1) = 5 then frameFrom2dCoordinatesTrue s1
            else Inl UnsupportedFormat) = Inr s2" and s': "s' = s2"
      by (auto simp: nextFrame_def bindE_eq_Inr)
    have "palettes s2 pid = palettes s1 pid \<and> header s2 = header s1"
    proof (cases "hdr_format (header s1) = 2")
      case True
      let ?s = "s1\<lparr>palettes := (palettes s1)(hdr_projector_id (header s1) \<mapsto>
                   replicate (number_of_records s1) (ILDAColor 0 0 0))\<rparr>"
      from d True have loop: "for_loop [0..<number_of_records ?s] (\<lambda>i s. bindE (read 3 s) (\<lambda>(c, s1).
              set_palette_entry i (ILDAColor (c ! 0) (c ! 1) (c ! 2)) s1)) ?s = Inr s2"
        by (simp add: setColorPalette_def Let_def)
      have h2: "header s2 = header s1"
        using palette_loop_keeps[OF loop, of "hdr_projector_id (header s1) + 1"] by simp
      then have ne: "hdr_projector_id (header ?s) \<noteq> pid"
        using assms(2) True s' by simp
      from palette_loop_keeps[OF loop ne] ne show ?thesis by auto
    next
      case False
      with d have "frameFrom3dCoordinatesIndexed s1 = Inr s2 \<or>
                   frameFrom3dCoordinatesTrue s1 = Inr s2 \<or>
                   frameFrom2dCoordinatesTrue s1 = Inr s2"
        by (auto split: if_splits)
      then show ?thesis
        by (auto simp: frameFrom3dCoordinatesIndexed_def frameFrom3dCoordinatesTrue_def
              frameFrom2dCoordinatesTrue_def Let_def begin_frame_def dest!: frame_loop_keeps)
    qed
    then show ?thesis using p1 s' by simp
  qed
qed

text \<open>
  C7. The claim: a new palette for a projector replaces the previous one, and a subsequent
  indexed record of that projector with an index in range gets the new palette's entry.
  The palette is replaced (\<open>nextFrame_palette_block\<close>) and kept by the blocks that follow
  (\<open>nextFrame_keeps_palette\<close>), and the records of an indexed 3D block get its entries
  (\<open>palette_load_then_indexed_block\<close>, with the scenario of the specification). The
  records of an indexed 2D block do not: \<open>nextFrame\<close> reads them with the 3D layout (see
  C2). After the palette (255,0,0), (0,255,0) for projector 7, a 2D record with status 0
  and colour index 1 comes out black with \<open>z = 256\<close>, its status and index taken from the
  next header; \<open>frameFrom2dCoordinatesIndexed\<close>, which is never called, gives (0,255,0).
\<close>

theorem palette_then_2d_indexed_record:
  "palettes (snd (projr (nextFrame (fresh_stream palette_then_2d_bytes)))) 7 =
     Some scenario_palette \<and>
   map_sum id fst
     (nextFrame (snd (projr (nextFrame (fresh_stream palette_then_2d_bytes))))) =
     Inr (Some \<lparr>projector = 7,
                points = [\<lparr>pt_x = 1, pt_y = 2, pt_z = 256, pt_r = 0, pt_g = 0, pt_b = 0\<rparr>]\<rparr>) \<and>
   map_sum id (points \<circ> current_frame)
     (bindE (readHeader (snd (projr (nextFrame (fresh_stream palette_then_2d_bytes)))))
        frameFrom2dCoordinatesIndexed) =
     Inr [\<lparr>pt_x = 1, pt_y = 2, pt_z = 0, pt_r = 0, pt_g = 255, pt_b = 0\<rparr>]"
proof -
  let ?s = "fresh_stream palette_then_2d_bytes"
  let ?s1 = "?s\<lparr>input := make_header 0 1 0 1 7 @ [1, 0, 2, 0, 0, 1] @ make_header 0 0 0 0 0,
               header := make_header 0 2 0 2 7, number_of_records := length scenario_palette,
               palettes := (palettes ?s)(7 \<mapsto> scenario_palette)\<rparr>"
  have h1: "block_header (make_header 0 2 0 2 7) 2 (length scenario_palette) 7"
    by (simp add: block_header_def make_header_def ILDA_literal_def scenario_palette_def)
  have ne: "scenario_palette \<noteq> []" by (simp add: scenario_palette_def)
  have inp: "input ?s = make_header 0 2 0 2 7 @ concat (map color_bytes scenario_palette) @
     (make_header 0 1 0 1 7 @ [1, 0, 2, 0, 0, 1] @ make_header 0 0 0 0 0)"
    by (simp only: fresh_stream_def palette_then_2d_bytes_def ILDAIStream.simps)
  have n1: "nextFrame ?s = Inr (Some (current_frame ?s), ?s1)"
    by (rule nextFrame_palette_block[OF h1 ne inp])
  have a: "palettes ?s1 7 = Some scenario_palette" by simp
  have b: "map_sum id fst (nextFrame ?s1) =
     Inr (Some \<lparr>projector = 7,
                points = [\<lparr>pt_x = 1, pt_y = 2, pt_z = 256, pt_r = 0, pt_g = 0, pt_b = 0\<rparr>]\<rparr>)"
    by (simp add: nextFrame_def readHeader_def read_def sizeof_ilda_header_def fresh_stream_def
        make_header_def c_string_def ILDA_literal_def big_to_native_def
        hdr_number_of_records_def native_uint16_def hdr_format_def hdr_projector_id_def
        frameFrom3dCoordinatesIndexed_def begin_frame_def
        lookup_palette_def point_3d_indexed_def indexed_point_def scenario_palette_def
        native_int16_def to_int16_def status_blanked_def push_back_def)
  have c: "map_sum id (points \<circ> current_frame) (bindE (readHeader ?s1) frameFrom2dCoordinatesIndexed) =
     Inr [\<lparr>pt_x = 1, pt_y = 2, pt_z = 0, pt_r = 0, pt_g = 255, pt_b = 0\<rparr>]"
    by (simp add: readHeader_def read_def sizeof_ilda_header_def fresh_stream_def
        make_header_def c_string_def ILDA_literal_def big_to_native_def
        hdr_number_of_records_def native_uint16_def hdr_format_def hdr_projector_id_def
        frameFrom2dCoordinatesIndexed_def begin_frame_def
        lookup_palette_def point_2d_indexed_def indexed_point_def scenario_palette_def
        native_int16_def to_int16_def status_blanked_def push_back_def)
  show ?thesis
    unfolding n1 by (simp only: a b c sum.sel snd_conv simp_thms)
qed

end
